theory Spec2Isabelle
  imports Main "HOL-Library.Signed_Division"
begin

section \<open>Integers, strings and printing\<close>

text \<open>
  The evaluator of the MiniShell (Evaluation.c) is embedded function by function.  A C
  \<open>int\<close> or \<open>pid_t\<close> is an \<open>int\<close> of HOL; where the C arithmetic can leave the 32-bit
  range (only in \<open>hash_cmd\<close>) the two's complement wrap-around of the usual compilers is
  written out with \<open>int32\<close>.  A C string is the list of its bytes before the terminating
  NUL; the terminator is implicit at the end of the list.  Text handed to \<open>printf\<close> and
  \<open>fprintf\<close> is appended to the fields \<open>stdout\<close> and \<open>stderr\<close> of the state; the
  buffering of stdio is not modelled.
\<close>

abbreviation NUL :: char where
  "NUL \<equiv> CHR 0x00"

abbreviation NL :: string where
  "NL \<equiv> [CHR 0x0A]"

abbreviation TAB :: string where
  "TAB \<equiv> [CHR 0x09]"

definition INT_MAX :: int where
  "INT_MAX = 2147483647"

definition int32 :: "int \<Rightarrow> int" where
  "int32 x = (x + 2147483648) mod 4294967296 - 2147483648"

text \<open>A \<open>char\<close> read into an \<open>int\<close>: \<open>char\<close> is signed on the platforms the shell targets.\<close>

definition char_int :: "char \<Rightarrow> int" where
  "char_int c = (let n = of_char c in if n < 128 then n else n - 256)"

fun show_nat :: "nat \<Rightarrow> string" where
  "show_nat n =
     (if n < 10 then [char_of (48 + n)]
      else show_nat (n div 10) @ [char_of (48 + n mod 10)])"

declare show_nat.simps [simp del]

text \<open>The conversion \<open>%d\<close>.\<close>

definition show_int :: "int \<Rightarrow> string" where
  "show_int i = (if i < 0 then CHR ''-'' # show_nat (nat (- i)) else show_nat (nat i))"

fun show_hex_nat :: "nat \<Rightarrow> string" where
  "show_hex_nat n =
     (let d = n mod 16; c = (if d < 10 then char_of (48 + d) else char_of (87 + d))
      in if n < 16 then [c] else show_hex_nat (n div 16) @ [c])"

declare show_hex_nat.simps [simp del]

text \<open>The conversion \<open>%x\<close>: the \<open>int\<close> is read as an \<open>unsigned int\<close>.\<close>

definition show_hex :: "int \<Rightarrow> string" where
  "show_hex i = show_hex_nat (nat (i mod 4294967296))"

section \<open>Status values and the command hash\<close>

text \<open>
  Evaluation.c, lines 74-84.  The macro subtracts \<open>INTERNSTATUS\<close> only from negative
  values, so \<open>s - (-128)\<close> stays inside the 32-bit range.
\<close>

definition INTERNSTATUS :: int where
  "INTERNSTATUS = -128"

definition STATUS :: "int \<Rightarrow> int" where
  "STATUS status = (if status < 0 then status - INTERNSTATUS else status)"

definition CD :: int where "CD = 0x15d9"
definition CBG :: int where "CBG = 0x1665"
definition CFG :: int where "CFG = 0x1681"
definition HASH :: int where "HASH = 0x47ee6"
definition HELP :: int where "HELP = 0x4c151"
definition ECHO :: int where "ECHO = 0x4b21d"
definition EXIT :: int where "EXIT = 0x4e65e"
definition JOBS :: int where "JOBS = 0x4d206"
definition ECHO_STATUS :: int where "ECHO_STATUS = 0xd0b"

text \<open>
  \<open>hash_cmd\<close>, lines 132-146: \<open>hash = (hash + c * i) % INT_MAX; i *= 7\<close> for every
  byte \<open>c\<close> of the string.  \<open>%\<close> truncates towards zero (\<open>smod\<close>).
\<close>

fun hash_loop :: "int \<Rightarrow> int \<Rightarrow> string \<Rightarrow> int" where
  "hash_loop hash i [] = hash"
| "hash_loop hash i (c # str) =
     hash_loop (int32 (hash + int32 (char_int c * i)) smod INT_MAX) (int32 (i * 7)) str"

definition hash_cmd :: "string \<Rightarrow> int" where
  "hash_cmd str = hash_loop 0 7 str"

section \<open>Jobs and the state of the shell\<close>

definition MAXJOBS :: nat where
  "MAXJOBS = 32"

definition CMDBUFSZ :: nat where
  "CMDBUFSZ = 16"

datatype state_t = JDONE | JRUNNING | JSTOPPED

text \<open>The macros \<open>JFG\<close> (0) and \<open>JBG\<close> (1), the only values of \<open>background\<close> and \<open>options\<close>.\<close>

datatype bgmode = JFG | JBG

record job =
  jid :: int
  pid :: int
  pgid :: int
  background :: bgmode
  state :: state_t
  status :: int
  termsig :: int
  cmd :: string \<comment> \<open>the \<open>CMDBUFSZ\<close> bytes of \<open>char cmd[CMDBUFSZ]\<close>\<close>

text \<open>The error numbers the code can meet, with the text \<open>strerror\<close> gives for them.\<close>

datatype errno = E0 | EPERM | ENOENT | ESRCH | EINTR | EBADF | ECHILD | EAGAIN | EACCES
  | EFAULT | ENOTDIR | EISDIR | EINVAL | EMFILE

fun strerror :: "errno \<Rightarrow> string" where
  "strerror E0 = ''Success''"
| "strerror EPERM = ''Operation not permitted''"
| "strerror ENOENT = ''No such file or directory''"
| "strerror ESRCH = ''No such process''"
| "strerror EINTR = ''Interrupted system call''"
| "strerror EBADF = ''Bad file descriptor''"
| "strerror ECHILD = ''No child processes''"
| "strerror EAGAIN = ''Resource temporarily unavailable''"
| "strerror EACCES = ''Permission denied''"
| "strerror EFAULT = ''Bad address''"
| "strerror ENOTDIR = ''Not a directory''"
| "strerror EISDIR = ''Is a directory''"
| "strerror EINVAL = ''Invalid argument''"
| "strerror EMFILE = ''Too many open files''"

text \<open>Signal numbers (Linux) and the options of \<open>waitpid\<close> and \<open>open\<close>.\<close>

definition SIGINT :: int where "SIGINT = 2"
definition SIGKILL :: int where "SIGKILL = 9"
definition SIGSEGV :: int where "SIGSEGV = 11"
definition SIGTERM :: int where "SIGTERM = 15"
definition SIGCHLD :: int where "SIGCHLD = 17"
definition SIGCONT :: int where "SIGCONT = 18"
definition SIGTSTP :: int where "SIGTSTP = 20"
definition SIGTTIN :: int where "SIGTTIN = 21"
definition SIGTTOU :: int where "SIGTTOU = 22"

datatype waitopt = WUNTRACED | WCONTINUED | WNOHANG

datatype oflag = O_RDONLY | O_WRONLY | O_CREAT | O_TRUNC | O_APPEND | O_CLOEXEC

text \<open>
  An open file description: one of those the shell was started with, or one made by
  \<open>open\<close> or \<open>pipe2\<close>; the number is the position of the creating call in the trace of
  system calls, so every description made is new.
\<close>

datatype desc = Std nat | File string "oflag list" nat | PipeRead nat | PipeWrite nat

datatype sigdisp = Handler | Default

text \<open>
  The system calls the shell makes, in order.  Those whose result the code reads and
  that can fail are answered by the environment (the record \<open>os\<close> below); the
  descriptor calls are answered from the descriptor table of the state.
\<close>

datatype syscall =
    Sigaction sigdisp
  | Setpgid int int
  | Tcsetpgrp int
  | Kill int int
  | Waitpid int "waitopt list"
  | Fork
  | Execvp string "string list"
  | Chdir string
  | Open "string option" "oflag list"
  | Pipe2
  | Dup int
  | Dup2 int int
  | Close int

record shell =
  job_list :: "job list" \<comment> \<open>\<open>job_t job_list[MAXJOBS]\<close>\<close>
  last_job :: "nat option" \<comment> \<open>\<open>job_t*\<close> into \<open>job_list\<close>, as an index; \<open>None\<close> is \<open>NULL\<close>\<close>
  fg_job :: "nat option"
  shpid :: int
  init_flag :: bool
  interactive :: bool
  laststatus :: int
  errno :: errno
  fds :: "desc option list" \<comment> \<open>the descriptor table; its length is the limit on descriptors\<close>
  stdout :: string
  stderr :: string
  sys :: "syscall list"

datatype wait_result = Waited int int | WaitNone | WaitErr errno

text \<open>
  The answers of the operating system.  Each is asked with the number of system calls
  made so far, so the same call can be answered differently at different times.
  \<open>os_fork\<close> is the value \<open>fork\<close> returns in the process the model follows: \<open>0\<close> in a
  child, the child's pid in the parent, \<open>-1\<close> with an error number on failure.
  \<open>os_setpgid\<close> and \<open>os_tcsetpgrp\<close> answer the two calls of \<open>init_shell\<close>; everywhere
  else the code ignores the result of \<open>setpgid\<close> and \<open>tcsetpgrp\<close> and prints no
  \<open>errno\<close> they could have set, so the calls are only recorded.
\<close>

record os =
  os_fork :: "nat \<Rightarrow> int \<times> errno"
  os_waitpid :: "nat \<Rightarrow> int \<Rightarrow> waitopt list \<Rightarrow> wait_result"
  os_kill :: "nat \<Rightarrow> int \<Rightarrow> int \<Rightarrow> errno option"
  os_execvp :: "nat \<Rightarrow> string \<Rightarrow> string list \<Rightarrow> bool"
  os_chdir :: "nat \<Rightarrow> string \<Rightarrow> errno option"
  os_open :: "nat \<Rightarrow> string \<Rightarrow> oflag list \<Rightarrow> errno option"
  os_getpid :: int
  os_setpgid :: "nat \<Rightarrow> int \<Rightarrow> int \<Rightarrow> errno option"
  os_tcsetpgrp :: "nat \<Rightarrow> int \<Rightarrow> errno option"

definition emit :: "syscall \<Rightarrow> shell \<Rightarrow> shell" where
  "emit c s = s\<lparr>sys := sys s @ [c]\<rparr>"

definition clock :: "shell \<Rightarrow> nat" where
  "clock s = length (sys s)"

definition print_out :: "string \<Rightarrow> shell \<Rightarrow> shell" where
  "print_out str s = s\<lparr>stdout := stdout s @ str\<rparr>"

definition print_err :: "string \<Rightarrow> shell \<Rightarrow> shell" where
  "print_err str s = s\<lparr>stderr := stderr s @ str\<rparr>"

definition perror :: "string \<Rightarrow> shell \<Rightarrow> shell" where
  "perror msg s = print_err (msg @ '': '' @ strerror (errno s) @ NL) s"

text \<open>\<open>kill\<close>: returns \<open>0\<close>, or \<open>-1\<close> with \<open>errno\<close> set.\<close>

definition c_kill :: "os \<Rightarrow> int \<Rightarrow> int \<Rightarrow> shell \<Rightarrow> int \<times> shell" where
  "c_kill os p sig s =
     (case os_kill os (clock s) p sig of
        None \<Rightarrow> (0, emit (Kill p sig) s)
      | Some e \<Rightarrow> (-1, emit (Kill p sig) (s\<lparr>errno := e\<rparr>)))"

text \<open>
  \<open>waitpid\<close>: returns the pid and the wait status it stored, \<open>0\<close> when \<open>WNOHANG\<close> found
  nothing, or \<open>-1\<close> with \<open>errno\<close> set; the status is stored only in the first case.
\<close>

definition c_waitpid :: "os \<Rightarrow> int \<Rightarrow> waitopt list \<Rightarrow> shell \<Rightarrow> int \<times> int option \<times> shell" where
  "c_waitpid os p opts s =
     (case os_waitpid os (clock s) p opts of
        Waited r w \<Rightarrow> (r, Some w, emit (Waitpid p opts) s)
      | WaitNone \<Rightarrow> (0, None, emit (Waitpid p opts) s)
      | WaitErr e \<Rightarrow> (-1, None, emit (Waitpid p opts) (s\<lparr>errno := e\<rparr>)))"

text \<open>
  The macros of \<open><sys/wait.h>\<close> (Linux): the low seven bits are the terminating signal,
  \<open>0x7f\<close> in the low byte marks a stop, the second byte is the exit status.
\<close>

definition WIFEXITED :: "int \<Rightarrow> bool" where
  "WIFEXITED w = (w mod 128 = 0)"

definition WEXITSTATUS :: "int \<Rightarrow> int" where
  "WEXITSTATUS w = (w div 256) mod 256"

definition WIFSTOPPED :: "int \<Rightarrow> bool" where
  "WIFSTOPPED w = (w mod 256 = 127)"

definition WIFSIGNALED :: "int \<Rightarrow> bool" where
  "WIFSIGNALED w = (1 \<le> w mod 128 \<and> w mod 128 \<le> 126)"

definition WTERMSIG :: "int \<Rightarrow> int" where
  "WTERMSIG w = w mod 128"

section \<open>Job control\<close>

definition job_at :: "shell \<Rightarrow> nat \<Rightarrow> job" where
  "job_at s i = job_list s ! i"

definition upd_job :: "nat \<Rightarrow> (job \<Rightarrow> job) \<Rightarrow> shell \<Rightarrow> shell" where
  "upd_job i f s = s\<lparr>job_list := (job_list s)[i := f (job_list s ! i)]\<rparr>"

text \<open>
  The copy loop of \<open>register_job\<close>, lines 336-342: byte \<open>j\<close> of \<open>cmd\<close> goes to byte \<open>j\<close>
  of the buffer for \<open>j = 0 .. CMDBUFSZ - 1\<close>, and the loop stops after it has copied
  the terminator.  The first argument counts the iterations left.
\<close>

definition c_at :: "string \<Rightarrow> nat \<Rightarrow> char" where
  "c_at str j = (if j < length str then str ! j else NUL)"

fun cmd_copy :: "nat \<Rightarrow> nat \<Rightarrow> string \<Rightarrow> string \<Rightarrow> string" where
  "cmd_copy 0 j src buf = buf"
| "cmd_copy (Suc n) j src buf =
     (let buf' = buf[j := c_at src j]
      in if c_at src j = NUL then buf' else cmd_copy n (Suc j) src buf')"

text \<open>\<open>register_job\<close>, lines 322-349; the result is the slot, \<open>None\<close> for \<open>NULL\<close>.\<close>

definition register_job :: "int \<Rightarrow> int \<Rightarrow> bgmode \<Rightarrow> string option \<Rightarrow> shell \<Rightarrow> nat option \<times> shell" where
  "register_job p g bg c s =
     (case find (\<lambda>i. pid (job_at s i) = 0) [0..<MAXJOBS] of
        None \<Rightarrow> (None, s)
      | Some i \<Rightarrow>
          (Some i,
           upd_job i (\<lambda>j. j\<lparr>jid := int i, pid := p, pgid := g, background := bg,
              state := JRUNNING,
              cmd := (case c of None \<Rightarrow> cmd j | Some str \<Rightarrow> cmd_copy CMDBUFSZ 0 str (cmd j))\<rparr>) s))"

text \<open>\<open>unregister_job\<close>, lines 374-382.\<close>

definition unregister_job :: "nat \<Rightarrow> shell \<Rightarrow> shell" where
  "unregister_job i s = upd_job i (\<lambda>j. j\<lparr>pid := 0, jid := 0, status := 0, termsig := 0\<rparr>) s"

text \<open>
  The string \<open>%s\<close> prints for the buffer \<open>cmd\<close>: its bytes before the first NUL.  A
  buffer without NUL makes the C code read on past its 16 bytes; the model stops there.
\<close>

definition cmd_str :: "job \<Rightarrow> string" where
  "cmd_str j = takeWhile (\<lambda>c. c \<noteq> NUL) (cmd j)"

text \<open>\<open>display_job\<close>, lines 483-507.\<close>

definition display_job :: "nat \<Rightarrow> shell \<Rightarrow> shell" where
  "display_job i s =
     (let j = job_at s i;
          strstate = (if state j = JDONE then ''Done''
                      else if state j = JSTOPPED then ''Suspended'' else ''Running'');
          s = print_out (''['' @ show_int (jid j) @ '']+ '' @ strstate @ TAB @ cmd_str j @ TAB
                @ ''PID: '' @ show_int (pid j)) s
      in if state j = JDONE then
           (if termsig j \<noteq> 0
            then print_out (TAB @ ''Terminated with signal '' @ show_int (termsig j) @ NL) s
            else print_out (TAB @ ''Exit '' @ show_int (status j) @ NL) s)
         else print_out NL s)"

text \<open>\<open>remove_old_jobs\<close>, lines 385-396.\<close>

definition remove_old_jobs :: "bool \<Rightarrow> shell \<Rightarrow> shell" where
  "remove_old_jobs notify s =
     fold (\<lambda>i s.
        if pid (job_at s i) \<noteq> 0 \<and> state (job_at s i) = JDONE
        then unregister_job i
               (if notify \<and> background (job_at s i) = JBG then display_job i s else s)
        else s) [0..<MAXJOBS] s"

text \<open>\<open>find_job\<close>, lines 399-406.\<close>

definition find_job :: "int \<Rightarrow> shell \<Rightarrow> nat option" where
  "find_job p s = find (\<lambda>i. pid (job_at s i) = p) [0..<MAXJOBS]"

text \<open>\<open>suspend_job\<close>, lines 409-422.\<close>

definition suspend_job :: "os \<Rightarrow> nat \<Rightarrow> shell \<Rightarrow> shell" where
  "suspend_job os i s =
     (let (r, s) = c_kill os (pid (job_at s i)) SIGTSTP s;
          s = (if r < 0 then perror ''Unable to send TSTP'' s else s);
          s = upd_job i (\<lambda>j. j\<lparr>state := JSTOPPED, background := JBG\<rparr>) s
      in s\<lparr>last_job := Some i\<rparr>)"

text \<open>\<open>set_status_job\<close>, lines 566-586.\<close>

definition set_status_job :: "nat \<Rightarrow> int \<Rightarrow> shell \<Rightarrow> shell" where
  "set_status_job i wstatus s =
     (if WIFEXITED wstatus
      then upd_job i (\<lambda>j. j\<lparr>status := WEXITSTATUS wstatus, state := JDONE\<rparr>) s
      else if WIFSTOPPED wstatus
      then upd_job i (\<lambda>j. j\<lparr>status := 0, state := JSTOPPED\<rparr>) s
      else if WIFSIGNALED wstatus
      then upd_job i (\<lambda>j. j\<lparr>state := JDONE, termsig := WTERMSIG wstatus\<rparr>) s
      else s)"

text \<open>
  \<open>register_signals\<close>, lines 514-528: \<open>sigaction\<close> for the five signals of
  \<open>sigregistered\<close>.  With these signal numbers and a valid action \<open>sigaction\<close> has no
  error to report, so the branch to \<open>err\<close> is never taken.
\<close>

definition register_signals :: "sigdisp \<Rightarrow> shell \<Rightarrow> shell" where
  "register_signals d s = emit (Sigaction d) s"

text \<open>The message both resuming functions print when \<open>kill\<close> fails.\<close>

definition send_continue :: "os \<Rightarrow> nat \<Rightarrow> shell \<Rightarrow> shell" where
  "send_continue os i s =
     (if state (job_at s i) = JSTOPPED
      then (let (r, s) = c_kill os (pid (job_at s i)) SIGCONT s
            in if r < 0
               then print_err (''Unable to send continue to job '' @ show_int (jid (job_at s i))
                      @ '': '' @ strerror (errno s) @ NL) s
               else s)
      else s)"

text \<open>\<open>send_to_foreground\<close>, lines 425-462.\<close>

definition send_to_foreground :: "os \<Rightarrow> nat \<Rightarrow> shell \<Rightarrow> shell" where
  "send_to_foreground os i s =
     (let s = register_signals Default s;
          s = (if interactive s then emit (Tcsetpgrp (pid (job_at s i))) s else s);
          s = s\<lparr>fg_job := Some i\<rparr>;
          s = send_continue os i s;
          (r, w, s) = c_waitpid os (pid (job_at s i)) [WUNTRACED] s;
          s = (case w of None \<Rightarrow> s | Some w \<Rightarrow> upd_job i (\<lambda>j. j\<lparr>status := w\<rparr>) s);
          s = (if r < 0 then perror ''Wait foregroud job'' s else s);
          s = set_status_job i (status (job_at s i)) s;
          s = register_signals Handler s
      in if interactive s then emit (Tcsetpgrp (shpid s)) s else s)"

text \<open>\<open>send_to_background\<close>, lines 465-480.\<close>

definition send_to_background :: "os \<Rightarrow> nat \<Rightarrow> shell \<Rightarrow> shell" where
  "send_to_background os i s =
     (let s = send_continue os i s;
          s = upd_job i (\<lambda>j. j\<lparr>state := JRUNNING\<rparr>) s
      in s\<lparr>last_job := Some i\<rparr>)"

text \<open>\<open>launch_job\<close>, lines 352-371.\<close>

definition launch_job :: "os \<Rightarrow> nat \<Rightarrow> bool \<Rightarrow> shell \<Rightarrow> shell" where
  "launch_job os i notify s =
     (let s = upd_job i (\<lambda>j. j\<lparr>state := JSTOPPED\<rparr>) s;
          s = emit (Setpgid (pid (job_at s i)) (pid (job_at s i))) s
      in if background (job_at s i) = JFG then send_to_foreground os i s
         else (let s = send_to_background os i s
               in if notify
                  then print_out (''['' @ show_int (jid (job_at s i)) @ ''] ''
                         @ show_int (pid (job_at s i)) @ NL) s
                  else s))"

text \<open>\<open>grim_reaper\<close>, lines 589-607: one step of the loop, then the loop.\<close>

definition reap_slot :: "os \<Rightarrow> nat \<Rightarrow> shell \<Rightarrow> shell" where
  "reap_slot os i s =
     (if pid (job_at s i) > 0
      then (let (r, w, s) = c_waitpid os (pid (job_at s i)) [WUNTRACED, WCONTINUED, WNOHANG] s
            in case (r > 0, w) of
                 (True, Some w) \<Rightarrow> set_status_job i w s
               | _ \<Rightarrow>
                  (let (k, s) = c_kill os (pid (job_at s i)) 0 s
                   in if k = -1 \<and> errno s = ESRCH then unregister_job i s else s))
      else s)"

definition grim_reaper :: "os \<Rightarrow> shell \<Rightarrow> shell" where
  "grim_reaper os s = fold (reap_slot os) [0..<MAXJOBS] s"

text \<open>\<open>sig_handler\<close>, lines 531-563.\<close>

definition sig_handler :: "os \<Rightarrow> int \<Rightarrow> shell \<Rightarrow> shell" where
  "sig_handler os signo s =
     (if signo = SIGCHLD then grim_reaper os s
      else if signo = SIGINT then
        (case fg_job s of
           None \<Rightarrow> s
         | Some i \<Rightarrow>
            (let (r, s) = c_kill os (pid (job_at s i)) SIGINT s
             in if r < 0 then perror ''Unable to send SIGINT to foreground process'' s else s))
      else if signo = SIGTSTP then
        (case fg_job s of None \<Rightarrow> s | Some i \<Rightarrow> suspend_job os i s)
      else if signo = SIGTTIN \<or> signo = SIGTTOU then emit (Tcsetpgrp (shpid s)) s
      else s)"

section \<open>Descriptors\<close>

definition STDIN_FILENO :: int where "STDIN_FILENO = 0"
definition STDOUT_FILENO :: int where "STDOUT_FILENO = 1"
definition STDERR_FILENO :: int where "STDERR_FILENO = 2"

definition fd_open :: "shell \<Rightarrow> int \<Rightarrow> bool" where
  "fd_open s fd = (0 \<le> fd \<and> nat fd < length (fds s) \<and> fds s ! nat fd \<noteq> None)"

definition lowest_free :: "desc option list \<Rightarrow> nat option" where
  "lowest_free t = find (\<lambda>i. t ! i = None) [0..<length t]"

text \<open>
  \<open>dup\<close>, \<open>dup2\<close>, \<open>close\<close>, \<open>open\<close> and \<open>pipe2\<close> on the descriptor table.  A call
  fails with \<open>EBADF\<close> on a descriptor that is not open and with \<open>EMFILE\<close> when the table
  has no free entry; \<open>open\<close> also fails when the environment says so.  A failed call
  returns \<open>-1\<close> and sets \<open>errno\<close>.
\<close>

definition c_dup :: "int \<Rightarrow> shell \<Rightarrow> int \<times> shell" where
  "c_dup fd s =
     (let s' = emit (Dup fd) s
      in if \<not> fd_open s fd then (-1, s'\<lparr>errno := EBADF\<rparr>)
         else case lowest_free (fds s) of
                None \<Rightarrow> (-1, s'\<lparr>errno := EMFILE\<rparr>)
              | Some n \<Rightarrow> (int n, s'\<lparr>fds := (fds s)[n := fds s ! nat fd]\<rparr>))"

definition c_dup2 :: "int \<Rightarrow> int \<Rightarrow> shell \<Rightarrow> int \<times> shell" where
  "c_dup2 oldfd newfd s =
     (let s' = emit (Dup2 oldfd newfd) s
      in if fd_open s oldfd \<and> 0 \<le> newfd \<and> nat newfd < length (fds s)
         then (newfd, s'\<lparr>fds := (fds s)[nat newfd := fds s ! nat oldfd]\<rparr>)
         else (-1, s'\<lparr>errno := EBADF\<rparr>))"

definition c_close :: "int \<Rightarrow> shell \<Rightarrow> int \<times> shell" where
  "c_close fd s =
     (let s' = emit (Close fd) s
      in if \<not> fd_open s fd then (-1, s'\<lparr>errno := EBADF\<rparr>)
         else (0, s'\<lparr>fds := (fds s)[nat fd := None]\<rparr>))"

definition c_open :: "os \<Rightarrow> string option \<Rightarrow> oflag list \<Rightarrow> shell \<Rightarrow> int \<times> shell" where
  "c_open os path flags s =
     (let s' = emit (Open path flags) s
      in case path of
           None \<Rightarrow> (-1, s'\<lparr>errno := EFAULT\<rparr>)
         | Some p \<Rightarrow>
            (case os_open os (clock s) p flags of
               Some e \<Rightarrow> (-1, s'\<lparr>errno := e\<rparr>)
             | None \<Rightarrow>
                (case lowest_free (fds s) of
                   None \<Rightarrow> (-1, s'\<lparr>errno := EMFILE\<rparr>)
                 | Some n \<Rightarrow> (int n, s'\<lparr>fds := (fds s)[n := Some (File p flags (clock s))]\<rparr>))))"

text \<open>\<open>pipe2\<close>: the result, \<open>pipefd[0]\<close>, \<open>pipefd[1]\<close> and the state.\<close>

definition c_pipe2 :: "shell \<Rightarrow> int \<times> int \<times> int \<times> shell" where
  "c_pipe2 s =
     (let s' = emit Pipe2 s
      in case lowest_free (fds s) of
           None \<Rightarrow> (-1, 0, 0, s'\<lparr>errno := EMFILE\<rparr>)
         | Some r \<Rightarrow>
            (let t = (fds s)[r := Some (PipeRead (clock s))]
             in case lowest_free t of
                  None \<Rightarrow> (-1, 0, 0, s'\<lparr>errno := EMFILE\<rparr>)
                | Some w \<Rightarrow> (0, int r, int w, s'\<lparr>fds := t[w := Some (PipeWrite (clock s))]\<rparr>)))"

section \<open>Built-in commands\<close>

text \<open>
  What running a piece of the evaluator ends in: it returns a status, or the process
  ends in \<open>exit\<close>, or it becomes another program in \<open>execvp\<close>, or it dereferences a null
  pointer.
\<close>

datatype res = Ret int shell | Halt int shell | Exec string "string list" shell | Segv shell

text \<open>
  The block both branches of \<open>cmd_jobctrl\<close> run on the job they have chosen
  (lines 819-833 and 873-885).
\<close>

definition resume_job :: "os \<Rightarrow> nat \<Rightarrow> bgmode \<Rightarrow> shell \<Rightarrow> int \<times> shell" where
  "resume_job os tmp bg s =
     (if bg = JBG \<and> state (job_at s tmp) = JRUNNING
      then (1, print_err (cmd_str (job_at s tmp) @ '': job already in background'' @ NL) s)
      else (let s = print_out (''['' @ show_int (jid (job_at s tmp)) @ '']+ Resumed'' @ TAB
                      @ cmd_str (job_at s tmp) @ NL) s
            in (0, if bg = JBG then send_to_background os tmp s
                   else send_to_foreground os tmp s)))"

definition last_job_unusable :: "shell \<Rightarrow> bool" where
  "last_job_unusable s =
     (case last_job s of None \<Rightarrow> True | Some l \<Rightarrow> state (job_at s l) = JDONE)"

text \<open>The loop of lines 868-871, from the slot \<open>tmp\<close>.\<close>

definition most_recent :: "shell \<Rightarrow> nat \<Rightarrow> nat" where
  "most_recent s tmp =
     fold (\<lambda>i tmp.
        if pid (job_at s i) \<noteq> 0 \<and> state (job_at s i) \<noteq> JDONE
           \<and> pid (job_at s i) \<ge> pid (job_at s tmp)
        then i else tmp) [0..<MAXJOBS] tmp"

text \<open>\<open>cmd_jobctrl\<close>, lines 805-886; \<open>job_cmd\<close> is \<open>None\<close> for \<open>NULL\<close>.\<close>

definition cmd_jobctrl :: "os \<Rightarrow> string option \<Rightarrow> bgmode \<Rightarrow> shell \<Rightarrow> int \<times> shell" where
  "cmd_jobctrl os job_cmd bg s =
     (case job_cmd of
        Some name \<Rightarrow>
          (case find (\<lambda>i. cmd_str (job_at s i) = name \<and> pid (job_at s i) \<noteq> 0) [0..<MAXJOBS] of
             Some i \<Rightarrow> resume_job os i bg s
           | None \<Rightarrow>
              (1, print_err ((if bg = JBG then ''bg'' else ''fg'') @ '': job not found: ''
                    @ name @ NL) s))
      | None \<Rightarrow>
          (let s = (if last_job_unusable s
                    then (case find (\<lambda>i. pid (job_at s i) \<noteq> 0 \<and> state (job_at s i) \<noteq> JDONE)
                                 [0..<MAXJOBS] of
                            Some i \<Rightarrow> s\<lparr>last_job := Some i\<rparr>
                          | None \<Rightarrow> s)
                    else s)
           in case last_job s of
                None \<Rightarrow>
                  (1, print_err ((if bg = JBG then ''bg'' else ''fg'') @ '': no job to resume''
                        @ NL) s)
              | Some l \<Rightarrow>
                  if state (job_at s l) = JDONE
                  then (1, print_err ((if bg = JBG then ''bg'' else ''fg'')
                             @ '': no job to resume'' @ NL) s)
                  else resume_job os (most_recent s l) bg s))"

text \<open>\<open>internal_help\<close> and \<open>dipslay_help\<close>, lines 98-125.\<close>

definition internal_help :: "string list" where
  "internal_help =
     [''cd [dir]'', ''echo [$? | arg ...]'', ''exit'',
      ''hash [text]'' @ TAB @ '' /!'' @ [CHR 0x5C] @ '' Only adds each ASCII character!'',
      ''fg [name]'', ''bg [name]'', ''help'']"

definition dipslay_help :: "shell \<Rightarrow> shell" where
  "dipslay_help s =
     (let s = print_out (''MiniShell - ProgSys 2020-21'' @ NL
                @ ''Pierre Boisselier <pierre.boisselier@etu.u-bordeaux.fr>'' @ NL @ NL
                @ ''Those shell commands are defined internally.'' @ NL @ NL) s;
          s = fold (\<lambda>str s. print_out (TAB @ str @ NL) s) internal_help s;
          s = print_out NL s
      in print_out (''Keyboard shortcuts:'' @ NL
           @ TAB @ ''- Ctrl-Z: Suspend current job in foreground'' @ NL
           @ TAB @ ''- Ctrl-C: Interrupt current foreground job'' @ NL @ NL) s)"

text \<open>The printing loop of \<open>echo\<close>, lines 909-914, on the arguments still to print.\<close>

fun echo_args :: "string list \<Rightarrow> string" where
  "echo_args [] = []"
| "echo_args (arg # argv) = arg @ (if argv \<noteq> [] then '' '' else []) @ echo_args argv"

text \<open>
  \<open>internal_cmd\<close>, lines 889-963.  \<open>argv\<close> is the list of the arguments before the
  terminating \<open>NULL\<close>, so \<open>argv[1] == NULL\<close> is \<open>tl argv = []\<close>.  \<open>EndOfFile\<close> (Shell.c,
  lines 86-90) is \<open>exit (0)\<close>.
\<close>

definition internal_cmd :: "os \<Rightarrow> string \<Rightarrow> string list \<Rightarrow> shell \<Rightarrow> res" where
  "internal_cmd os command argv s =
     (let h = hash_cmd command
      in if h = EXIT then Halt 0 s
         else if h = ECHO then
           (case tl argv of
              [] \<Rightarrow> Ret 0 s
            | a # rest \<Rightarrow>
               (if hash_cmd a = ECHO_STATUS
                then Ret 0 (print_out NL (print_out (echo_args rest)
                       (print_out (show_int (laststatus s) @ '' '') s)))
                else Ret 0 (print_out NL (print_out (echo_args (a # rest)) s))))
         else if h = CD then
           (case tl argv of
              [] \<Rightarrow> Ret 0 s
            | dir # rest \<Rightarrow>
               (case os_chdir os (clock s) dir of
                  None \<Rightarrow> Ret 0 (emit (Chdir dir) s)
                | Some e \<Rightarrow>
                   Ret 1 (print_err (''Unable to change directory: '' @ strerror e @ '' (''
                            @ drop 1 (hd argv) @ '')'' @ NL)
                          (emit (Chdir dir) (s\<lparr>errno := e\<rparr>)))))
         else if h = HELP then Ret 0 (dipslay_help s)
         else if h = HASH then
           (case tl argv of
              [] \<Rightarrow> Ret 1 (print_err (''hash: no argument to hash'' @ NL) s)
            | a # rest \<Rightarrow> Ret 0 (print_out (show_hex (hash_cmd a) @ NL) s))
         else if h = JOBS then
           Ret 0 (fold (\<lambda>i s. if pid (job_at s i) \<noteq> 0 then display_job i s else s)
                    [0..<MAXJOBS] s)
         else if h = CFG then
           (case cmd_jobctrl os (case tl argv of [] \<Rightarrow> None | a # rest \<Rightarrow> Some a) JFG s of
              (r, s) \<Rightarrow> Ret r s)
         else if h = CBG then
           (case cmd_jobctrl os (case tl argv of [] \<Rightarrow> None | a # rest \<Rightarrow> Some a) JBG s of
              (r, s) \<Rightarrow> Ret r s)
         else Ret (-1) s)"

definition table_full_message :: string where
  "table_full_message =
     ''Unable to register a new job, terminate some jobs first (max: ''
       @ show_int (int MAXJOBS) @ '')'' @ NL"

text \<open>
  \<open>start_cmd\<close>, lines 966-1013.  In the child (\<open>fork\<close> returned \<open>0\<close>) \<open>setpgid (0, 0)\<close>
  cannot fail, the child of a \<open>fork\<close> not being a session leader.
\<close>

definition start_cmd :: "os \<Rightarrow> string \<Rightarrow> string list \<Rightarrow> bgmode \<Rightarrow> bool \<Rightarrow> shell \<Rightarrow> res" where
  "start_cmd os command argv options notify s =
     (case internal_cmd os command argv s of
        Ret wstatus s \<Rightarrow>
          if wstatus \<noteq> -1 then Ret wstatus s
          else
            (let (p, e) = os_fork os (clock s);
                 s = emit Fork (if p < 0 then s\<lparr>errno := e\<rparr> else s)
             in if p = 0 then
                  (let s = register_signals Default s;
                       s = emit (Setpgid 0 0) s;
                       ok = os_execvp os (clock s) command argv;
                       s = emit (Execvp command argv) s
                   in if ok then Exec command argv s
                      else Halt 1 (print_err (command @ '': command not found'' @ NL) s))
                else
                  (case register_job p p options (Some command) s of
                     (None, s) \<Rightarrow> Ret (INTERNSTATUS + 1) (print_err table_full_message s)
                   | (Some job, s) \<Rightarrow>
                      (let s = launch_job os job notify s
                       in if options = JFG then Ret (status (job_at s job)) s
                          else Ret INTERNSTATUS s)))
      | r \<Rightarrow> r)"

section \<open>Expressions and their evaluation\<close>

text \<open>
  The node built by \<open>ConstruireNoeud\<close> (Shell.c, lines 23-40): a type, the children
  \<open>gauche\<close> and \<open>droite\<close>, and the arguments; \<open>ENULL\<close> is the null pointer.

  Modelled from the spec: the declaration of \<open>expr_t\<close> is in Shell.h, which is not among
  the sources.  The order of the types is the one section 3 of the specification lists
  them in, with the five redirections last, which is what the test
  \<open>e->type >= REDIRECTION_I\<close> of \<open>expression_handler\<close> relies on.
\<close>

datatype expr_t = VIDE | SIMPLE | SEQUENCE | SEQUENCE_ET | SEQUENCE_OU | BG | PIPE
  | REDIRECTION_I | REDIRECTION_O | REDIRECTION_A | REDIRECTION_E | REDIRECTION_EO

datatype Expression = ENULL | Node expr_t Expression Expression "string list"

definition is_redirection :: "expr_t \<Rightarrow> bool" where
  "is_redirection t =
     (t = REDIRECTION_I \<or> t = REDIRECTION_O \<or> t = REDIRECTION_A \<or> t = REDIRECTION_E
      \<or> t = REDIRECTION_EO)"

definition O_OUT :: "oflag list" where
  "O_OUT = [O_WRONLY, O_CREAT, O_CLOEXEC, O_TRUNC]"

definition O_IN :: "oflag list" where
  "O_IN = [O_RDONLY, O_CLOEXEC]"

text \<open>The flags \<open>lay_redirection\<close> opens the file with, lines 668 and 680-683.\<close>

definition redirection_flags :: "expr_t \<Rightarrow> oflag list" where
  "redirection_flags t =
     (let flags = O_OUT;
          flags = (if t = REDIRECTION_A then removeAll O_TRUNC flags @ [O_APPEND] else flags)
      in if t = REDIRECTION_I then O_IN else flags)"

text \<open>The \<open>switch\<close> of lines 690-710; the result says whether every \<open>dup2\<close> succeeded.\<close>

definition set_redirection :: "expr_t \<Rightarrow> int \<Rightarrow> shell \<Rightarrow> bool \<times> shell" where
  "set_redirection t fd s =
     (if t = REDIRECTION_I then (let (r, s) = c_dup2 fd STDIN_FILENO s in (r \<noteq> -1, s))
      else if t = REDIRECTION_E then (let (r, s) = c_dup2 fd STDERR_FILENO s in (r \<noteq> -1, s))
      else if t = REDIRECTION_EO then
        (let (r, s) = c_dup2 fd STDERR_FILENO s
         in if r = -1 then (False, s)
            else (let (r, s) = c_dup2 fd STDOUT_FILENO s in (r \<noteq> -1, s)))
      else if t = REDIRECTION_A \<or> t = REDIRECTION_O then
        (let (r, s) = c_dup2 fd STDOUT_FILENO s in (r \<noteq> -1, s))
      else (True, s))"

text \<open>
  The labels \<open>err\<close>, \<open>err2\<close>, \<open>err3\<close> and \<open>err4\<close> of \<open>lay_redirection\<close>, lines 726-734.
  \<open>%s\<close> prints a null \<open>*e->arguments\<close> as \<open>(null)\<close>.
\<close>

definition redir_err :: "string list \<Rightarrow> shell \<Rightarrow> res" where
  "redir_err arguments s =
     Ret (-1) (print_err ((case arguments of [] \<Rightarrow> ''(null)'' | f # _ \<Rightarrow> f) @ '': ''
                 @ strerror (errno s) @ NL) s)"

definition redir_err2 :: "int \<Rightarrow> string list \<Rightarrow> shell \<Rightarrow> res" where
  "redir_err2 fd arguments s = redir_err arguments (snd (c_close fd s))"

definition redir_err3 :: "int \<Rightarrow> int \<Rightarrow> string list \<Rightarrow> shell \<Rightarrow> res" where
  "redir_err3 inp fd arguments s = redir_err2 fd arguments (snd (c_close inp s))"

definition redir_err4 :: "int \<Rightarrow> int \<Rightarrow> int \<Rightarrow> string list \<Rightarrow> shell \<Rightarrow> res" where
  "redir_err4 out inp fd arguments s = redir_err3 inp fd arguments (snd (c_close out s))"

text \<open>\<open>dup2 (saved, fd) == -1 || close (saved) == -1\<close>: true when one of the two fails.\<close>

definition restore_fails :: "int \<Rightarrow> int \<Rightarrow> shell \<Rightarrow> bool \<times> shell" where
  "restore_fails saved fd s =
     (let (r, s) = c_dup2 saved fd s
      in if r = -1 then (True, s) else (let (r, s) = c_close saved s in (r = -1, s)))"

text \<open>The label \<open>err\<close> of \<open>lay_pipeline\<close>, lines 659-661.\<close>

definition pipe_err :: "shell \<Rightarrow> res" where
  "pipe_err s = Ret (-1) (perror ''Unable to set pipe'' s)"

text \<open>
  \<open>expression_handler\<close> (lines 1020-1048), \<open>lay_pipeline\<close> (615-662),
  \<open>lay_redirection\<close> (665-735) and \<open>start_sequence\<close> (742-802).  In the child of a
  background sequence \<open>setpgid (0, 0)\<close> cannot fail.
\<close>

function (sequential)
  expression_handler :: "os \<Rightarrow> Expression \<Rightarrow> bgmode \<Rightarrow> bool \<Rightarrow> shell \<Rightarrow> res" and
  lay_pipeline :: "os \<Rightarrow> Expression \<Rightarrow> bgmode \<Rightarrow> shell \<Rightarrow> res" and
  lay_redirection :: "os \<Rightarrow> Expression \<Rightarrow> bgmode \<Rightarrow> shell \<Rightarrow> res" and
  start_sequence :: "os \<Rightarrow> Expression \<Rightarrow> bgmode \<Rightarrow> bool \<Rightarrow> shell \<Rightarrow> res"
where
  "expression_handler os ENULL options notify s = Segv s"
| "expression_handler os (Node t gauche droite arguments) options notify s =
     (if is_redirection t then lay_redirection os (Node t gauche droite arguments) options s
      else case t of
          VIDE \<Rightarrow> Ret INTERNSTATUS s
        | SEQUENCE \<Rightarrow> start_sequence os (Node t gauche droite arguments) options notify s
        | SEQUENCE_ET \<Rightarrow> start_sequence os (Node t gauche droite arguments) options notify s
        | SEQUENCE_OU \<Rightarrow> start_sequence os (Node t gauche droite arguments) options notify s
        | PIPE \<Rightarrow> lay_pipeline os (Node t gauche droite arguments) options s
        | BG \<Rightarrow> expression_handler os gauche JBG notify s
        | SIMPLE \<Rightarrow>
            (case arguments of
               [] \<Rightarrow> Segv s
             | command # _ \<Rightarrow> start_cmd os command arguments options notify s)
        | _ \<Rightarrow> Ret (INTERNSTATUS + 1) (print_err (''Unexpected error.'' @ NL) s))"
| "lay_pipeline os ENULL options s = Segv s"
| "lay_pipeline os (Node t gauche droite arguments) options s =
     (let (r, pipefd0, pipefd1, s) = c_pipe2 s
      in if r = -1 then pipe_err s
         else
          (let (out, s) = c_dup STDOUT_FILENO s;
               (inp, s) = c_dup STDIN_FILENO s
           in if out = -1 \<or> inp = -1 then pipe_err s
              else
               (let (r, s) = c_dup2 pipefd0 STDIN_FILENO s
                in if r = -1 then pipe_err s
                   else
                    (let (r, s) = c_close pipefd0 s
                     in if r = -1 then pipe_err s
                        else
                         (case expression_handler os droite JBG False s of
                            Ret wstatus s \<Rightarrow>
                             (let (r, s) = c_dup2 inp STDIN_FILENO s
                              in if r = -1 then pipe_err s
                                 else
                                  (let (r, s) = c_dup2 pipefd1 STDOUT_FILENO s
                                   in if r = -1 then pipe_err s
                                      else
                                       (let (r, s) = c_close pipefd1 s
                                        in if r = -1 then pipe_err s
                                           else
                                            (case expression_handler os gauche options False s of
                                               Ret wstatus s \<Rightarrow>
                                                (let (r, s) = c_dup2 out STDOUT_FILENO s
                                                 in if r = -1 then pipe_err s
                                                    else
                                                     (let (r, s) = c_close out s
                                                      in if r < 0 then pipe_err s
                                                         else
                                                          (let (r, s) = c_close inp s
                                                           in if r < 0 then pipe_err s
                                                              else Ret wstatus s)))
                                             | r \<Rightarrow> r))))
                          | r \<Rightarrow> r)))))"
| "lay_redirection os ENULL options s = Segv s"
| "lay_redirection os (Node t gauche droite arguments) options s =
     (let (out, s) = c_dup STDOUT_FILENO s;
          (inp, s) = c_dup STDIN_FILENO s;
          (err, s) = c_dup STDERR_FILENO s
      in if out = -1 \<or> inp = -1 \<or> err = -1 then redir_err arguments s
         else
          (let (fd, s) = c_open os (case arguments of [] \<Rightarrow> None | f # _ \<Rightarrow> Some f)
                           (redirection_flags t) s
           in if fd = -1 then redir_err arguments s
              else
               (let (ok, s) = set_redirection t fd s
                in if \<not> ok then redir_err2 fd arguments s
                   else
                    (case expression_handler os gauche options False s of
                       Ret wstatus s \<Rightarrow>
                        (let (failed, s) = restore_fails inp STDIN_FILENO s
                         in if failed then redir_err2 fd arguments s
                            else
                             (let (failed, s) = restore_fails out STDOUT_FILENO s
                              in if failed then redir_err3 inp fd arguments s
                                 else
                                  (let (failed, s) = restore_fails err STDERR_FILENO s
                                   in if failed then redir_err4 out inp fd arguments s
                                      else
                                       (let (r, s) = c_close fd s
                                        in if r = -1 then redir_err arguments s
                                           else Ret wstatus s))))
                     | r \<Rightarrow> r))))"
| "start_sequence os ENULL options notify s = Segv s"
| "start_sequence os (Node t gauche droite arguments) options notify s =
     (if options = JBG then
        (let (p, e) = os_fork os (clock s);
             s = emit Fork (if p < 0 then s\<lparr>errno := e\<rparr> else s);
             s = (if p < 0 then perror ''Unable to fork'' s else s)
         in if p = 0 then
              (let s = register_signals Default s;
                   s = emit (Setpgid 0 0) s
               in case start_sequence os (Node t gauche droite arguments) JFG notify s of
                    Ret wstatus s \<Rightarrow> Halt (STATUS wstatus) s
                  | r \<Rightarrow> r)
            else
              (case register_job p p JBG (Some ''Sequence'') s of
                 (None, s) \<Rightarrow> Ret (INTERNSTATUS + 1) (print_err table_full_message s)
               | (Some job, s) \<Rightarrow> Ret INTERNSTATUS (launch_job os job notify s)))
      else
        (case expression_handler os gauche options False s of
           Ret wstatus s \<Rightarrow>
            (let wstatus = STATUS wstatus
             in if t = SEQUENCE_ET then
                  (if wstatus \<noteq> 0 then Ret (STATUS wstatus) s
                   else (case expression_handler os droite options False s of
                           Ret wstatus s \<Rightarrow> Ret (STATUS wstatus) s
                         | r \<Rightarrow> r))
                else if t = SEQUENCE_OU then
                  (if wstatus = 0 then Ret (STATUS wstatus) s
                   else (case expression_handler os droite options False s of
                           Ret wstatus s \<Rightarrow> Ret (STATUS wstatus) s
                         | r \<Rightarrow> r))
                else if t = SEQUENCE then
                  (case expression_handler os droite options False s of
                     Ret wstatus s \<Rightarrow> Ret (STATUS wstatus) s
                   | r \<Rightarrow> r)
                else Ret (STATUS wstatus) s)
         | r \<Rightarrow> r))"
  by pat_completeness auto

termination
  by (relation "measure (\<lambda>x. case x of
        Inl (Inl (os, e, options, notify, s)) \<Rightarrow> 4 * size e + 3
      | Inl (Inr (os, e, options, s)) \<Rightarrow> 4 * size e + 2
      | Inr (Inl (os, e, options, s)) \<Rightarrow> 4 * size e + 2
      | Inr (Inr (os, e, options, notify, s)) \<Rightarrow>
          4 * size e + (if options = JBG then 2 else 1))")
    auto

text \<open>\<open>init_shell\<close>, lines 285-319; \<open>memset\<close> makes every slot the zero job.\<close>

definition zero_job :: job where
  "zero_job = \<lparr>jid = 0, pid = 0, pgid = 0, background = JFG, state = JDONE, status = 0,
     termsig = 0, cmd = replicate CMDBUFSZ NUL\<rparr>"

definition init_shell :: "os \<Rightarrow> shell \<Rightarrow> shell" where
  "init_shell os s =
     (let s = register_signals Handler s;
          s = s\<lparr>job_list := replicate MAXJOBS zero_job\<rparr>;
          s = s\<lparr>shpid := os_getpid os\<rparr>
      in case os_setpgid os (clock s) (shpid s) (shpid s) of
           Some e \<Rightarrow> emit (Setpgid (shpid s) (shpid s)) (s\<lparr>errno := e\<rparr>)
         | None \<Rightarrow>
            (let s = emit (Setpgid (shpid s) (shpid s)) s;
                 s = (case os_tcsetpgrp os (clock s) (shpid s) of
                        Some e \<Rightarrow> emit (Tcsetpgrp (shpid s)) (s\<lparr>errno := e, interactive := False\<rparr>)
                      | None \<Rightarrow> emit (Tcsetpgrp (shpid s)) s)
             in s\<lparr>init_flag := True\<rparr>))"

text \<open>
  \<open>evaluer_expr\<close>, lines 1051-1105.  \<open>init_shell\<close> returns \<open>0\<close> on every path, so the
  \<open>longjmp\<close> is never reached.
\<close>

definition fault_notice :: "shell \<Rightarrow> shell" where
  "fault_notice s =
     (case fg_job s of
        None \<Rightarrow> s
      | Some f \<Rightarrow>
         if \<not> interactive s then s
         else if termsig (job_at s f) = SIGSEGV
         then print_err (cmd_str (job_at s f) @ '': Segmentation fault.'' @ NL) s
         else if termsig (job_at s f) = SIGKILL \<or> termsig (job_at s f) = SIGTERM
         then print_err (cmd_str (job_at s f) @ '': Terminated.'' @ NL) s
         else s)"

definition evaluer_expr :: "os \<Rightarrow> Expression \<Rightarrow> shell \<Rightarrow> res" where
  "evaluer_expr os e s =
     (let s = (if \<not> init_flag s then init_shell os s else s)
      in case expression_handler os e JFG (interactive s) s of
           Ret wstatus s \<Rightarrow>
            (let s = grim_reaper os s;
                 wstatus = STATUS wstatus;
                 wstatus = (case fg_job s of
                              None \<Rightarrow> wstatus
                            | Some f \<Rightarrow>
                               if status (job_at s f) \<noteq> 0 then status (job_at s f) else wstatus);
                 s = s\<lparr>laststatus := wstatus\<rparr>;
                 s = fault_notice s;
                 s = remove_old_jobs (interactive s) s
             in Ret wstatus (s\<lparr>fg_job := None\<rparr>))
         | r \<Rightarrow> r)"

section \<open>A shell at its prompt and three environments\<close>

text \<open>
  The state \<open>init_shell\<close> leaves in an interactive shell of pid 1000 whose descriptors
  0, 1 and 2 are open, with a limit of 16 descriptors; \<open>last_job\<close> starts at
  \<open>job_list\<close> (line 198).
\<close>

definition shell0 :: shell where
  "shell0 = \<lparr>job_list = replicate MAXJOBS zero_job, last_job = Some 0, fg_job = None,
     shpid = 1000, init_flag = True, interactive = True, laststatus = 0, errno = E0,
     fds = [Some (Std 0), Some (Std 1), Some (Std 2)] @ replicate 13 None,
     stdout = [], stderr = [], sys = []\<rparr>"

text \<open>
  An environment in which every call succeeds and every wait reports the wait status
  \<open>w\<close>: \<open>fork\<close> returns a new pid in the parent, \<open>os_wait 0\<close> is a child that exited
  with \<open>0\<close>, \<open>os_wait 256\<close> one that exited with \<open>1\<close> as the program \<open>false\<close> does, and
  \<open>os_wait 0x147f\<close> one stopped by \<open>SIGTSTP\<close>.
\<close>

definition os_wait :: "int \<Rightarrow> os" where
  "os_wait w = \<lparr>os_fork = (\<lambda>t. (100 + int t, E0)),
     os_waitpid = (\<lambda>t p opts. Waited p w),
     os_kill = (\<lambda>t p sig. None),
     os_execvp = (\<lambda>t c argv. True),
     os_chdir = (\<lambda>t dir. None),
     os_open = (\<lambda>t path flags. None),
     os_getpid = 1000,
     os_setpgid = (\<lambda>t p g. None),
     os_tcsetpgrp = (\<lambda>t p. None)\<rparr>"

text \<open>The same, but no file can be opened: \<open>open\<close> fails with \<open>ENOENT\<close>.\<close>

definition os_noent :: os where
  "os_noent = (os_wait 0)\<lparr>os_open := (\<lambda>t path flags. Some ENOENT)\<rparr>"

text \<open>
  An environment in which the processes of the job table are gone without the shell
  having waited for them, the case the last branch of \<open>grim_reaper\<close> is written for:
  the shell has no child to wait for, so every \<open>waitpid\<close> fails with \<open>ECHILD\<close>, and
  the probe \<open>kill (pid, 0)\<close> fails with \<open>ESRCH\<close>.
\<close>

definition os_gone :: os where
  "os_gone = (os_wait 0)\<lparr>
     os_waitpid := (\<lambda>t p opts. WaitErr ECHILD),
     os_kill := (\<lambda>t p sig. if sig = 0 then Some ESRCH else None)\<rparr>"

text \<open>A job table with every slot taken by a running background job.\<close>

definition shell_full :: shell where
  "shell_full = shell0\<lparr>job_list :=
     map (\<lambda>i. zero_job\<lparr>jid := int i, pid := 200 + int i, pgid := 200 + int i,
            background := JBG, state := JRUNNING\<rparr>) [0..<MAXJOBS]\<rparr>"

text \<open>
  Whom \<open>kill (p, sig)\<close> signals (POSIX): the process \<open>p\<close> when \<open>p\<close> is positive, the
  caller's process group when it is \<open>0\<close>, every process when it is \<open>-1\<close>, and the
  process group \<open>-p\<close> otherwise.
\<close>

datatype target = Process int | CallerGroup | Everyone | Group int

definition kill_target :: "int \<Rightarrow> target" where
  "kill_target p =
     (if p > 0 then Process p else if p = 0 then CallerGroup
      else if p = -1 then Everyone else Group (- p))"

fun signals_sent :: "syscall list \<Rightarrow> (target \<times> int) list" where
  "signals_sent [] = []"
| "signals_sent (Kill p sig # cs) = (kill_target p, sig) # signals_sent cs"
| "signals_sent (c # cs) = signals_sent cs"

text \<open>The job table after \<open>sleep\<close> was registered as the foreground job, during its wait.\<close>

definition shell_fg :: shell where
  "shell_fg = (snd (register_job 100 100 JFG (Some ''sleep'') shell0))\<lparr>fg_job := Some 0\<rparr>"

text \<open>The expressions of \<open>false\<close> and of \<open>echo x\<close>.\<close>

abbreviation cmd_false :: Expression where
  "cmd_false \<equiv> Node SIMPLE ENULL ENULL [''false'']"

abbreviation cmd_echo_x :: Expression where
  "cmd_echo_x \<equiv> Node SIMPLE ENULL ENULL [''echo'', ''x'']"

fun res_shell :: "res \<Rightarrow> shell" where
  "res_shell (Ret w s) = s"
| "res_shell (Halt w s) = s"
| "res_shell (Exec c argv s) = s"
| "res_shell (Segv s) = s"

text \<open>A command name is a built-in when its hash is one of the eight constants.\<close>

definition is_builtin :: "string \<Rightarrow> bool" where
  "is_builtin c = (hash_cmd c \<in> {EXIT, ECHO, CD, HELP, HASH, JOBS, CFG, CBG})"

section \<open>Two predicates of the specification on the job table\<close>

text \<open>
  An occupied slot whose job is not done, and the invariant P3 of the specification:
  every job in state \<open>JSTOPPED\<close> has \<open>background = JBG\<close>.
\<close>

definition live :: "shell \<Rightarrow> nat \<Rightarrow> bool" where
  "live s i = (pid (job_at s i) \<noteq> 0 \<and> state (job_at s i) \<noteq> JDONE)"

definition stopped_is_bg :: "shell \<Rightarrow> bool" where
  "stopped_is_bg s = list_all (\<lambda>j. state j = JSTOPPED \<longrightarrow> background j = JBG) (job_list s)"

section \<open>What the specification says of \<open>echo\<close>\<close>

text \<open>
  The contract of \<open>echo\<close> in the words of the specification (section 4.9): the
  arguments separated by single spaces and a trailing newline; when the first argument
  is the token \<open>$?\<close>, the last status is put in front and the token is dropped.
\<close>

fun separated :: "string list \<Rightarrow> string" where
  "separated [] = []"
| "separated [a] = a"
| "separated (a # b # rest) = a @ '' '' @ separated (b # rest)"

definition echo_spec :: "int \<Rightarrow> string list \<Rightarrow> string" where
  "echo_spec st args =
     (if args \<noteq> [] \<and> hd args = ''$?'' then show_int st @ '' '' @ separated (tl args) @ NL
      else separated args @ NL)"

section \<open>Canonicalisation of statuses\<close>

text \<open>
  C5, as the claim states it, fails: at the status \<open>-300\<close> one application gives \<open>-172\<close>
  and a second one gives \<open>-44\<close>; \<open>-172\<close> is also outside \<open>0..255\<close>.
\<close>

theorem STATUS_idempotence_counterexample:
  "STATUS (STATUS (-300)) \<noteq> STATUS (-300) \<and> \<not> (0 \<le> STATUS (-300) \<and> STATUS (-300) \<le> 255)"
  by (simp add: STATUS_def INTERNSTATUS_def)

text \<open>
  C5, amended: for every status not below the sentinel \<open>-128\<close>, canonicalising twice is
  canonicalising once and the result is not negative; the sentinel itself becomes \<open>0\<close>;
  and a status between \<open>-128\<close> and \<open>255\<close> is canonicalised into \<open>0..255\<close>.
\<close>

theorem STATUS_idempotent_from_sentinel:
  "INTERNSTATUS \<le> s \<Longrightarrow>
     STATUS (STATUS s) = STATUS s \<and> 0 \<le> STATUS s \<and> STATUS INTERNSTATUS = 0 \<and>
     (s \<le> 255 \<longrightarrow> STATUS s \<le> 255)"
  by (simp add: STATUS_def INTERNSTATUS_def)

theorem STATUS_idempotent_from_sentinel_witness:
  "INTERNSTATUS \<le> -127 \<and> STATUS (STATUS (-127)) = STATUS (-127) \<and> STATUS (-127) = 1 \<and>
     STATUS INTERNSTATUS = 0 \<and> STATUS (-127) \<le> 255"
  using STATUS_idempotent_from_sentinel [of "-127"]
  by (simp add: STATUS_def INTERNSTATUS_def)

section \<open>Facts about the hash and the state\<close>

lemma hash_exit: "hash_cmd ''exit'' = EXIT"
  by code_simp

lemma hash_echo: "hash_cmd ''echo'' = ECHO"
  by code_simp

lemma hash_status_token: "hash_cmd ''$?'' = ECHO_STATUS"
  by code_simp

lemma hash_hello: "hash_cmd ''hello'' \<noteq> ECHO_STATUS"
  by code_simp

lemma hash_x: "hash_cmd ''x'' \<noteq> ECHO_STATUS"
  by code_simp

lemma ECHO_not_EXIT: "ECHO \<noteq> EXIT"
  by (simp add: ECHO_def EXIT_def)

lemma job_at_emit [simp]: "job_at (emit c s) i = job_at s i"
  by (simp add: job_at_def emit_def)

lemma job_at_print_err [simp]: "job_at (print_err m s) i = job_at s i"
  by (simp add: job_at_def print_err_def)

lemma job_at_errno [simp]: "job_at (s\<lparr>errno := e\<rparr>) i = job_at s i"
  by (simp add: job_at_def)

lemma print_out_print_out: "print_out y (print_out x s) = print_out (x @ y) s"
  by (simp add: print_out_def)

lemma signals_sent_append: "signals_sent (xs @ ys) = signals_sent xs @ signals_sent ys"
  by (induction xs rule: signals_sent.induct) simp_all

section \<open>Redirections and the saved descriptors\<close>

text \<open>
  Where every call succeeds the descriptor table is the same after the evaluation as
  before it: \<open>echo one > f\<close> and \<open>ls | wc\<close>.
\<close>

lemma redirection_success_restores:
  "(case lay_redirection (os_wait 0)
           (Node REDIRECTION_O (Node SIMPLE ENULL ENULL [''echo'', ''one'']) ENULL [''f'']) JFG shell0 of
      Ret w s \<Rightarrow> w = 0 \<and> fds s = fds shell0 \<and> stdout s = ''one'' @ NL \<and> stderr s = []
    | _ \<Rightarrow> False)"
  by code_simp

lemma pipeline_success_restores:
  "(case lay_pipeline (os_wait 0)
           (Node PIPE (Node SIMPLE ENULL ENULL [''ls'']) (Node SIMPLE ENULL ENULL [''wc'']) []) JFG shell0 of
      Ret w s \<Rightarrow> w = 0 \<and> fds s = fds shell0 \<and> stderr s = []
    | _ \<Rightarrow> False)"
  by code_simp

text \<open>
  C1.  The redirection \<open>cat < missing\<close>, where \<open>open\<close> fails for the file: the
  evaluation returns \<open>-1\<close> with descriptors 0, 1 and 2 as they were, but the three
  saves made by \<open>dup\<close> (descriptors 3, 4 and 5) are still open when it returns: the
  jump to \<open>err\<close> closes nothing, and the trace has no \<open>close\<close>.
\<close>

theorem lay_redirection_open_failure_leaks_saves:
  "(case lay_redirection os_noent
           (Node REDIRECTION_I (Node SIMPLE ENULL ENULL [''cat'']) ENULL [''missing'']) JFG shell0 of
      Ret w s \<Rightarrow>
        w = -1 \<and> take 3 (fds s) = take 3 (fds shell0) \<and>
        fd_open s 3 \<and> fd_open s 4 \<and> fd_open s 5 \<and>
        \<not> fd_open shell0 3 \<and> \<not> fd_open shell0 4 \<and> \<not> fd_open shell0 5 \<and>
        sys s = [Dup 1, Dup 0, Dup 2, Open (Some ''missing'') [O_RDONLY, O_CLOEXEC]] \<and>
        stderr s = ''missing: No such file or directory'' @ NL
    | _ \<Rightarrow> False)"
  by code_simp

text \<open>
  The pipeline \<open>ls | wc\<close> with a limit of six descriptors: \<open>pipe2\<close> takes 3 and 4,
  the first \<open>dup\<close> takes 5 and the second fails with \<open>EMFILE\<close>; the jump to \<open>err\<close>
  leaves the two ends of the pipe and the save open.
\<close>

lemma lay_pipeline_dup_failure_leaks:
  "(case lay_pipeline (os_wait 0)
           (Node PIPE (Node SIMPLE ENULL ENULL [''ls'']) (Node SIMPLE ENULL ENULL [''wc'']) []) JFG
           (shell0\<lparr>fds := [Some (Std 0), Some (Std 1), Some (Std 2), None, None, None]\<rparr>) of
      Ret w s \<Rightarrow>
        w = -1 \<and> sys s = [Pipe2, Dup 1, Dup 0] \<and>
        fds s = [Some (Std 0), Some (Std 1), Some (Std 2), Some (PipeRead 0), Some (PipeWrite 0),
                 Some (Std 1)] \<and>
        stderr s = ''Unable to set pipe: Too many open files'' @ NL
    | _ \<Rightarrow> False)"
  by code_simp

section \<open>Sequences\<close>

lemma echo_plain:
  "hash_cmd c = ECHO \<Longrightarrow> hash_cmd a \<noteq> ECHO_STATUS \<Longrightarrow>
     internal_cmd os c (a0 # a # rest) s = Ret 0 (print_out (echo_args (a # rest) @ NL) s)"
  by (simp add: internal_cmd_def ECHO_not_EXIT print_out_print_out)

lemma echo_x:
  "expression_handler os cmd_echo_x options notify s = Ret 0 (print_out (''x'' @ NL) s)"
  using echo_plain [OF hash_echo hash_x, of os "''echo''" "[]" s]
  by (simp add: is_redirection_def start_cmd_def)

lemma gating_and:
  "start_sequence os (Node SEQUENCE_ET l r a) JFG n s =
     (case expression_handler os l JFG False s of
        Ret w s1 \<Rightarrow>
          if STATUS w = 0
          then (case expression_handler os r JFG False s1 of
                  Ret w2 s2 \<Rightarrow> Ret (STATUS w2) s2 | x \<Rightarrow> x)
          else Ret (STATUS (STATUS w)) s1
      | x \<Rightarrow> x)"
  by (simp split: res.splits)

lemma gating_or:
  "start_sequence os (Node SEQUENCE_OU l r a) JFG n s =
     (case expression_handler os l JFG False s of
        Ret w s1 \<Rightarrow>
          if STATUS w \<noteq> 0
          then (case expression_handler os r JFG False s1 of
                  Ret w2 s2 \<Rightarrow> Ret (STATUS w2) s2 | x \<Rightarrow> x)
          else Ret 0 s1
      | x \<Rightarrow> x)"
  by (simp add: STATUS_def split: res.splits)

lemma gating_plain:
  "start_sequence os (Node SEQUENCE l r a) JFG n s =
     (case expression_handler os l JFG False s of
        Ret w s1 \<Rightarrow>
          (case expression_handler os r JFG False s1 of
             Ret w2 s2 \<Rightarrow> Ret (STATUS w2) s2 | x \<Rightarrow> x)
      | x \<Rightarrow> x)"
  by (simp split: res.splits)

lemma STATUS_twice: "INTERNSTATUS \<le> w \<Longrightarrow> STATUS (STATUS w) = STATUS w"
  by (simp add: STATUS_def INTERNSTATUS_def)

text \<open>
  C2.  A sequence evaluated in the foreground first evaluates its left side; when that
  returns the status \<open>w\<close>, \<open>SEQUENCE_ET\<close> evaluates the right side exactly when
  \<open>STATUS w\<close> is zero, \<open>SEQUENCE_OU\<close> exactly when it is not zero, and \<open>SEQUENCE\<close>
  always; where the right side is not evaluated the state is the one the left side
  left.  So when \<open>false\<close> returns a status that is canonicalised to a nonzero value,
  \<open>false && echo x\<close> returns that nonzero value in the state \<open>false\<close> left (nothing
  is printed), and \<open>false || echo x\<close> prints \<open>x\<close> and a newline and returns \<open>0\<close>.
\<close>

theorem sequence_gating:
  "start_sequence os (Node SEQUENCE_ET l r a) JFG n s =
     (case expression_handler os l JFG False s of
        Ret w s1 \<Rightarrow>
          if STATUS w = 0
          then (case expression_handler os r JFG False s1 of
                  Ret w2 s2 \<Rightarrow> Ret (STATUS w2) s2 | x \<Rightarrow> x)
          else Ret (STATUS (STATUS w)) s1
      | x \<Rightarrow> x) \<and>
   start_sequence os (Node SEQUENCE_OU l r a) JFG n s =
     (case expression_handler os l JFG False s of
        Ret w s1 \<Rightarrow>
          if STATUS w \<noteq> 0
          then (case expression_handler os r JFG False s1 of
                  Ret w2 s2 \<Rightarrow> Ret (STATUS w2) s2 | x \<Rightarrow> x)
          else Ret 0 s1
      | x \<Rightarrow> x) \<and>
   start_sequence os (Node SEQUENCE l r a) JFG n s =
     (case expression_handler os l JFG False s of
        Ret w s1 \<Rightarrow>
          (case expression_handler os r JFG False s1 of
             Ret w2 s2 \<Rightarrow> Ret (STATUS w2) s2 | x \<Rightarrow> x)
      | x \<Rightarrow> x) \<and>
   (expression_handler os cmd_false JFG False s = Ret w1 s1 \<and> STATUS w1 \<noteq> 0
      \<and> INTERNSTATUS \<le> w1 \<longrightarrow>
      start_sequence os (Node SEQUENCE_ET cmd_false cmd_echo_x a) JFG n s = Ret (STATUS w1) s1 \<and>
      start_sequence os (Node SEQUENCE_OU cmd_false cmd_echo_x a) JFG n s
        = Ret 0 (print_out (''x'' @ NL) s1))"
proof (intro conjI impI)
  assume h: "expression_handler os cmd_false JFG False s = Ret w1 s1 \<and> STATUS w1 \<noteq> 0
      \<and> INTERNSTATUS \<le> w1"
  show "start_sequence os (Node SEQUENCE_ET cmd_false cmd_echo_x a) JFG n s = Ret (STATUS w1) s1"
    using h by (simp only: gating_and) (simp add: STATUS_twice)
  show "start_sequence os (Node SEQUENCE_OU cmd_false cmd_echo_x a) JFG n s
        = Ret 0 (print_out (''x'' @ NL) s1)"
    using h by (simp only: gating_or echo_x) (simp add: STATUS_def)
qed (rule gating_and gating_or gating_plain)+

theorem sequence_gating_witness:
  "expression_handler (os_wait 256) cmd_false JFG False shell0
     = Ret 1 (res_shell (expression_handler (os_wait 256) cmd_false JFG False shell0)) \<and>
   stdout (res_shell (expression_handler (os_wait 256) cmd_false JFG False shell0)) = [] \<and>
   start_sequence (os_wait 256) (Node SEQUENCE_ET cmd_false cmd_echo_x []) JFG True shell0
     = Ret 1 (res_shell (expression_handler (os_wait 256) cmd_false JFG False shell0)) \<and>
   start_sequence (os_wait 256) (Node SEQUENCE_OU cmd_false cmd_echo_x []) JFG True shell0
     = Ret 0 (print_out (''x'' @ NL)
         (res_shell (expression_handler (os_wait 256) cmd_false JFG False shell0)))"
proof -
  let ?s1 = "res_shell (expression_handler (os_wait 256) cmd_false JFG False shell0)"
  have f: "expression_handler (os_wait 256) cmd_false JFG False shell0 = Ret 1 ?s1"
    by code_simp
  have out: "stdout ?s1 = []"
    by code_simp
  have st: "STATUS 1 \<noteq> 0" "INTERNSTATUS \<le> 1" "STATUS 1 = 1"
    by (simp_all add: STATUS_def INTERNSTATUS_def)
  have g: "start_sequence (os_wait 256) (Node SEQUENCE_ET cmd_false cmd_echo_x []) JFG True shell0
       = Ret (STATUS 1) ?s1 \<and>
     start_sequence (os_wait 256) (Node SEQUENCE_OU cmd_false cmd_echo_x []) JFG True shell0
       = Ret 0 (print_out (''x'' @ NL) ?s1)"
    using f st(1,2)
      sequence_gating [of "os_wait 256" cmd_false cmd_echo_x "[]" True shell0 1 ?s1]
    by blast
  show ?thesis
  proof (intro conjI)
    show "expression_handler (os_wait 256) cmd_false JFG False shell0 = Ret 1 ?s1"
      by (rule f)
    show "stdout ?s1 = []"
      by (rule out)
    show "start_sequence (os_wait 256) (Node SEQUENCE_ET cmd_false cmd_echo_x []) JFG True shell0
        = Ret 1 ?s1"
      using conjunct1 [OF g] by (simp only: st(3))
    show "start_sequence (os_wait 256) (Node SEQUENCE_OU cmd_false cmd_echo_x []) JFG True shell0
        = Ret 0 (print_out (''x'' @ NL) ?s1)"
      by (rule conjunct2 [OF g])
  qed
qed

section \<open>Stopped jobs\<close>

text \<open>
  The invariant is kept by every operation that writes a slot through \<open>upd_job\<close> with
  a job that satisfies it: \<open>register_job\<close>, \<open>unregister_job\<close>, \<open>suspend_job\<close> and
  \<open>send_to_background\<close>.
\<close>

lemma job_list_emit [simp]: "job_list (emit c s) = job_list s"
  by (simp add: emit_def)

lemma job_list_print_err [simp]: "job_list (print_err m s) = job_list s"
  by (simp add: print_err_def)

lemma job_list_print_out [simp]: "job_list (print_out m s) = job_list s"
  by (simp add: print_out_def)

lemma job_list_perror [simp]: "job_list (perror m s) = job_list s"
  by (simp add: perror_def)

lemma job_list_c_kill [simp]: "job_list (snd (c_kill os p sig s)) = job_list s"
  by (simp add: c_kill_def split: option.splits)

lemma job_list_send_continue [simp]: "job_list (send_continue os i s) = job_list s"
  by (simp add: send_continue_def c_kill_def split: option.splits prod.splits)

lemma stopped_is_bg_upd_job:
  assumes "stopped_is_bg s"
    and "i < length (job_list s) \<Longrightarrow>
           state (f (job_list s ! i)) = JSTOPPED \<longrightarrow> background (f (job_list s ! i)) = JBG"
  shows "stopped_is_bg (upd_job i f s)"
proof (cases "i < length (job_list s)")
  case True
  then show ?thesis
    using assms
    by (auto simp: stopped_is_bg_def upd_job_def list_all_length nth_list_update)
next
  case False
  then have "job_list (upd_job i f s) = job_list s"
    by (simp add: upd_job_def list_update_beyond)
  then show ?thesis
    using assms(1) by (simp add: stopped_is_bg_def)
qed

lemma stopped_is_bg_nth:
  "stopped_is_bg s \<Longrightarrow> i < length (job_list s) \<Longrightarrow> state (job_list s ! i) = JSTOPPED
     \<Longrightarrow> background (job_list s ! i) = JBG"
  by (simp add: stopped_is_bg_def list_all_length)

lemma stopped_is_bg_cong: "job_list s' = job_list s \<Longrightarrow> stopped_is_bg s' = stopped_is_bg s"
  by (simp add: stopped_is_bg_def)

lemma register_job_keeps_stopped_is_bg:
  "stopped_is_bg s \<Longrightarrow> stopped_is_bg (snd (register_job p g bg c s))"
  by (auto simp: register_job_def intro: stopped_is_bg_upd_job split: option.splits)

lemma unregister_job_keeps_stopped_is_bg:
  "stopped_is_bg s \<Longrightarrow> stopped_is_bg (unregister_job i s)"
  unfolding unregister_job_def
  by (rule stopped_is_bg_upd_job) (auto dest: stopped_is_bg_nth)

lemma suspend_job_keeps_stopped_is_bg:
  assumes "stopped_is_bg s"
  shows "stopped_is_bg (suspend_job os i s)"
proof -
  have "job_list (suspend_job os i s)
      = job_list (upd_job i (\<lambda>j. j\<lparr>state := JSTOPPED, background := JBG\<rparr>) s)"
    by (simp add: suspend_job_def c_kill_def emit_def perror_def print_err_def upd_job_def
        split: option.splits)
  moreover have "stopped_is_bg (upd_job i (\<lambda>j. j\<lparr>state := JSTOPPED, background := JBG\<rparr>) s)"
    using assms by (rule stopped_is_bg_upd_job) simp
  ultimately show ?thesis
    by (simp add: stopped_is_bg_def)
qed

lemma send_to_background_keeps_stopped_is_bg:
  assumes "stopped_is_bg s"
  shows "stopped_is_bg (send_to_background os i s)"
proof -
  have "job_list (send_to_background os i s)
      = job_list (upd_job i (\<lambda>j. j\<lparr>state := JRUNNING\<rparr>) s)"
    by (simp add: send_to_background_def upd_job_def Let_def)
  moreover have "stopped_is_bg (upd_job i (\<lambda>j. j\<lparr>state := JRUNNING\<rparr>) s)"
    using assms by (rule stopped_is_bg_upd_job) simp
  ultimately show ?thesis
    by (simp add: stopped_is_bg_def)
qed

text \<open>
  C3.  The command \<open>sleep 10\<close> started in the foreground and stopped while the shell
  waits for it (the wait status \<open>0x147f\<close>: stopped by \<open>SIGTSTP\<close>): when \<open>start_cmd\<close>
  returns, slot 0 holds the job in state \<open>JSTOPPED\<close> with \<open>background = JFG\<close>.
  \<open>set_status_job\<close> changes the state and leaves \<open>background\<close> as \<open>launch_job\<close>
  found it.
\<close>

theorem foreground_job_stopped_stays_foreground:
  "(case start_cmd (os_wait 0x147f) ''sleep'' [''sleep'', ''10''] JFG True shell0 of
      Ret w s \<Rightarrow>
        pid (job_at s 0) = 100 \<and> state (job_at s 0) = JSTOPPED \<and> background (job_at s 0) = JFG
    | _ \<Rightarrow> False)"
  by code_simp

text \<open>The same evaluation, in terms of the invariant: it holds before and not after.\<close>

lemma start_cmd_breaks_stopped_is_bg:
  "stopped_is_bg shell0 \<and>
   \<not> stopped_is_bg
        (res_shell (start_cmd (os_wait 0x147f) ''sleep'' [''sleep'', ''10''] JFG True shell0))"
  by code_simp

section \<open>The handler of \<open>SIGTSTP\<close>\<close>

text \<open>
  C4, as the claim states it, fails: for the foreground job of pid and pgid 100 the
  handler calls \<open>kill (100, SIGTSTP)\<close>, which signals the process 100 and not the
  process group 100.
\<close>

theorem sigtstp_to_group_counterexample:
  "fg_job shell_fg = Some 0 \<and> pid (job_at shell_fg 0) = 100 \<and> pgid (job_at shell_fg 0) = 100 \<and>
   signals_sent (sys (sig_handler (os_wait 0) SIGTSTP shell_fg)) = [(Process 100, SIGTSTP)] \<and>
   (Group (pgid (job_at shell_fg 0)), SIGTSTP)
     \<notin> set (signals_sent (sys (sig_handler (os_wait 0) SIGTSTP shell_fg)))"
  by code_simp

text \<open>
  C4, amended: when the handler of \<open>SIGTSTP\<close> runs while \<open>fg_job\<close> is null it does
  nothing; while \<open>fg_job\<close> is a job of the table it makes the one call
  \<open>kill (fg_job->pid, SIGTSTP)\<close>, which for a positive pid signals that process alone,
  sets the state of the job to \<open>JSTOPPED\<close> and its \<open>background\<close> to \<open>JBG\<close>, leaves
  the other fields and the other jobs as they are, and sets \<open>last_job\<close> to the job.
\<close>

theorem sigtstp_handler:
  "(fg_job s = None \<longrightarrow> sig_handler os SIGTSTP s = s) \<and>
   (fg_job s = Some i \<and> i < length (job_list s) \<longrightarrow>
      sys (sig_handler os SIGTSTP s) = sys s @ [Kill (pid (job_at s i)) SIGTSTP] \<and>
      (0 < pid (job_at s i) \<longrightarrow>
         signals_sent (sys (sig_handler os SIGTSTP s))
           = signals_sent (sys s) @ [(Process (pid (job_at s i)), SIGTSTP)]) \<and>
      job_at (sig_handler os SIGTSTP s) i
        = (job_at s i)\<lparr>state := JSTOPPED, background := JBG\<rparr> \<and>
      (\<forall>k. k \<noteq> i \<longrightarrow> job_at (sig_handler os SIGTSTP s) k = job_at s k) \<and>
      last_job (sig_handler os SIGTSTP s) = Some i \<and>
      fg_job (sig_handler os SIGTSTP s) = Some i)"
proof -
  have sigs: "SIGTSTP \<noteq> SIGCHLD" "SIGTSTP \<noteq> SIGINT"
    by (simp_all add: SIGTSTP_def SIGCHLD_def SIGINT_def)
  have none: "fg_job s = None \<Longrightarrow> sig_handler os SIGTSTP s = s"
    using sigs by (simp add: sig_handler_def)
  have some: "fg_job s = Some i \<Longrightarrow> sig_handler os SIGTSTP s = suspend_job os i s"
    using sigs by (simp add: sig_handler_def)
  have trace: "sys (suspend_job os i s) = sys s @ [Kill (pid (job_at s i)) SIGTSTP]"
    by (simp add: suspend_job_def c_kill_def emit_def perror_def print_err_def upd_job_def
        split: option.splits)
  have jobs: "job_list (suspend_job os i s)
      = (job_list s)[i := (job_list s ! i)\<lparr>state := JSTOPPED, background := JBG\<rparr>]"
    by (simp add: suspend_job_def c_kill_def emit_def perror_def print_err_def upd_job_def
        split: option.splits)
  have ptrs: "last_job (suspend_job os i s) = Some i" "fg_job (suspend_job os i s) = fg_job s"
    by (simp_all add: suspend_job_def c_kill_def emit_def perror_def print_err_def upd_job_def
        split: option.splits)
  show ?thesis
    using none some trace jobs ptrs
    by (auto simp: job_at_def signals_sent_append kill_target_def)
qed

theorem sigtstp_handler_witness:
  "fg_job shell_fg = Some 0 \<and> 0 < length (job_list shell_fg) \<and> 0 < pid (job_at shell_fg 0) \<and>
   sys (sig_handler (os_wait 0) SIGTSTP shell_fg) = [Kill 100 SIGTSTP] \<and>
   state (job_at (sig_handler (os_wait 0) SIGTSTP shell_fg) 0) = JSTOPPED \<and>
   background (job_at (sig_handler (os_wait 0) SIGTSTP shell_fg) 0) = JBG \<and>
   last_job (sig_handler (os_wait 0) SIGTSTP shell_fg) = Some 0 \<and>
   fg_job shell0 = None \<and> sig_handler (os_wait 0) SIGTSTP shell0 = shell0"
proof -
  have h: "fg_job shell_fg = Some 0" "0 < length (job_list shell_fg)"
    "pid (job_at shell_fg 0) = 100" "sys shell_fg = []" "fg_job shell0 = None"
    by code_simp+
  show ?thesis
    using h sigtstp_handler [of shell_fg "os_wait 0" 0] sigtstp_handler [of shell0 "os_wait 0" 0]
    by simp
qed

section \<open>The default target of \<open>fg\<close> and \<open>bg\<close>\<close>

lemma most_recent_fold:
  "(fold (\<lambda>i tmp. if live s i \<and> pid (job_at s i) \<ge> pid (job_at s tmp) then i else tmp) xs tmp = tmp
      \<or> (fold (\<lambda>i tmp. if live s i \<and> pid (job_at s i) \<ge> pid (job_at s tmp) then i else tmp) xs tmp \<in> set xs
          \<and> live s (fold (\<lambda>i tmp. if live s i \<and> pid (job_at s i) \<ge> pid (job_at s tmp) then i else tmp) xs tmp)))
   \<and> pid (job_at s tmp)
        \<le> pid (job_at s (fold (\<lambda>i tmp. if live s i \<and> pid (job_at s i) \<ge> pid (job_at s tmp) then i else tmp) xs tmp))
   \<and> (\<forall>i\<in>set xs. live s i \<longrightarrow>
        pid (job_at s i)
          \<le> pid (job_at s (fold (\<lambda>i tmp. if live s i \<and> pid (job_at s i) \<ge> pid (job_at s tmp) then i else tmp) xs tmp)))"
proof (induction xs arbitrary: tmp)
  case Nil
  then show ?case by simp
next
  case (Cons x xs)
  let ?f = "\<lambda>i tmp. if live s i \<and> pid (job_at s i) \<ge> pid (job_at s tmp) then i else tmp"
  show ?case
  proof (cases "live s x \<and> pid (job_at s x) \<ge> pid (job_at s tmp)")
    case True
    have "?f x tmp = x" by (rule if_P [OF True])
    then have "fold ?f (x # xs) tmp = fold ?f xs x" by simp
    then show ?thesis using Cons.IH [of x] True by auto
  next
    case False
    have "?f x tmp = tmp" by (rule if_not_P [OF False])
    then have "fold ?f (x # xs) tmp = fold ?f xs tmp" by simp
    then show ?thesis using Cons.IH [of tmp] False by auto
  qed
qed

lemma most_recent_max:
  assumes "live s tmp"
  shows "live s (most_recent s tmp) \<and> (most_recent s tmp = tmp \<or> most_recent s tmp < MAXJOBS) \<and>
         (\<forall>i<MAXJOBS. live s i \<longrightarrow> pid (job_at s i) \<le> pid (job_at s (most_recent s tmp)))"
proof -
  have eq: "most_recent s tmp
      = fold (\<lambda>i tmp. if live s i \<and> pid (job_at s i) \<ge> pid (job_at s tmp) then i else tmp) [0..<MAXJOBS] tmp"
    by (simp add: most_recent_def live_def conj_assoc)
  show ?thesis
    using most_recent_fold [of s "[0..<MAXJOBS]" tmp] assms unfolding eq by auto
qed

lemma find_live:
  "(find (\<lambda>i. pid (job_at s i) \<noteq> 0 \<and> state (job_at s i) \<noteq> JDONE) [0..<MAXJOBS] = None
      \<longleftrightarrow> \<not> (\<exists>i<MAXJOBS. live s i)) \<and>
   (find (\<lambda>i. pid (job_at s i) \<noteq> 0 \<and> state (job_at s i) \<noteq> JDONE) [0..<MAXJOBS] = Some k
      \<longrightarrow> k < MAXJOBS \<and> live s k)"
  by (auto simp: find_None_iff find_Some_iff live_def)

lemma live_last_job [simp]: "live (s\<lparr>last_job := l\<rparr>) i = live s i"
  by (simp add: live_def job_at_def)

lemma job_at_last_job [simp]: "job_at (s\<lparr>last_job := l\<rparr>) i = job_at s i"
  by (simp add: job_at_def)

lemma most_recent_last_job [simp]: "most_recent (s\<lparr>last_job := l\<rparr>) tmp = most_recent s tmp"
  by (simp add: most_recent_def)

text \<open>
  Where \<open>last_job\<close> is null or points to a slot that is done or occupied, the choice
  is the one the specification describes: without an occupied slot that is not done the
  command reports that there is no job to resume and returns \<open>1\<close>; otherwise it goes
  on with an occupied slot that is not done and whose pid is the greatest of all such
  slots.
\<close>

lemma cmd_jobctrl_default:
  assumes inv: "last_job s = None \<or>
      (\<exists>l. last_job s = Some l \<and> l < MAXJOBS \<and> (state (job_at s l) = JDONE \<or> pid (job_at s l) \<noteq> 0))"
  shows "(\<not> (\<exists>i<MAXJOBS. live s i) \<longrightarrow>
            cmd_jobctrl os None bg s
              = (1, print_err ((if bg = JBG then ''bg'' else ''fg'') @ '': no job to resume'' @ NL) s)) \<and>
         ((\<exists>i<MAXJOBS. live s i) \<longrightarrow>
            (\<exists>r l. r < MAXJOBS \<and> live s r \<and>
               (\<forall>i<MAXJOBS. live s i \<longrightarrow> pid (job_at s i) \<le> pid (job_at s r)) \<and>
               cmd_jobctrl os None bg s = resume_job os r bg (s\<lparr>last_job := Some l\<rparr>)))"
proof (cases "last_job_unusable s")
  case True
  show ?thesis
  proof (cases "\<exists>i<MAXJOBS. live s i")
    case False
    then have "find (\<lambda>i. pid (job_at s i) \<noteq> 0 \<and> state (job_at s i) \<noteq> JDONE) [0..<MAXJOBS] = None"
      using find_live [of s] by blast
    then show ?thesis
      using True False
      by (auto simp: cmd_jobctrl_def last_job_unusable_def split: option.splits)
  next
    case ex: True
    then obtain k where k: "find (\<lambda>i. pid (job_at s i) \<noteq> 0 \<and> state (job_at s i) \<noteq> JDONE) [0..<MAXJOBS] = Some k"
      using find_live [of s] by (metis not_None_eq)
    then have lk: "k < MAXJOBS" "live s k"
      using find_live [of s k] by simp_all
    then have run: "cmd_jobctrl os None bg s = resume_job os (most_recent s k) bg (s\<lparr>last_job := Some k\<rparr>)"
      using True k by (simp add: cmd_jobctrl_def live_def)
    show ?thesis
      using ex run most_recent_max [OF lk(2)] lk by metis
  qed
next
  case False
  then obtain l where l: "last_job s = Some l" "state (job_at s l) \<noteq> JDONE"
    by (auto simp: last_job_unusable_def split: option.splits)
  then have ll: "l < MAXJOBS" "live s l"
    using inv by (auto simp: live_def)
  have same: "s\<lparr>last_job := Some l\<rparr> = s"
    using l by simp
  have "cmd_jobctrl os None bg s = resume_job os (most_recent s l) bg s"
    using False l by (simp add: cmd_jobctrl_def)
  then have run: "cmd_jobctrl os None bg s = resume_job os (most_recent s l) bg (s\<lparr>last_job := Some l\<rparr>)"
    by (simp only: same)
  show ?thesis
    using run most_recent_max [OF ll(2)] ll by metis
qed

text \<open>
  C6.  A background job \<open>sleep\<close> is registered and launched, so \<open>last_job\<close> is its
  slot; its process then disappears and \<open>grim_reaper\<close> frees the slot by its branch for
  \<open>ESRCH\<close>, which clears \<open>pid\<close> and leaves \<open>state\<close> at \<open>JRUNNING\<close>.  No slot of the
  table is occupied now, and \<open>fg\<close> without a name does not report that there is no job
  to resume: it takes the freed slot, prints that it resumed it, waits for the pid
  \<open>0\<close>, where the only text on \<open>stderr\<close> is that of the failed wait, and returns
  \<open>0\<close>.
\<close>

theorem fg_resumes_freed_slot:
  "(let s = grim_reaper os_gone
              (launch_job os_gone 0 False (snd (register_job 100 100 JBG (Some ''sleep'') shell0)))
    in list_all (\<lambda>j. pid j = 0) (job_list s) \<and> last_job s = Some 0 \<and>
       state (job_at s 0) = JRUNNING \<and>
       (case cmd_jobctrl os_gone None JFG s of
          (r, s') \<Rightarrow>
            r = 0 \<and> stderr s' = ''Wait foregroud job: No child processes'' @ NL \<and>
            stdout s' = ''[0]+ Resumed'' @ TAB @ ''sleep'' @ NL \<and>
            sys s' = sys s @ [Sigaction Default, Tcsetpgrp 0, Waitpid 0 [WUNTRACED],
                       Sigaction Handler, Tcsetpgrp 1000]))"
  by code_simp

section \<open>A full job table\<close>

lemma register_job_full:
  assumes "\<forall>i<MAXJOBS. pid (job_at s i) \<noteq> 0"
  shows "register_job p g bg c s = (None, s)"
proof -
  have "find (\<lambda>i. pid (job_at s i) = 0) [0..<MAXJOBS] = None"
    using assms by (simp add: find_None_iff)
  then show ?thesis by (simp add: register_job_def)
qed

lemma internal_cmd_external:
  "\<not> is_builtin c \<Longrightarrow> internal_cmd os c argv s = Ret (-1) s"
  by (simp add: internal_cmd_def is_builtin_def)

text \<open>
  C7.  When every slot of the job table has a nonzero pid and the command is not a
  built-in, \<open>start_cmd\<close> in the parent of the \<open>fork\<close> finds that \<open>register_job\<close>
  returns \<open>NULL\<close> and leaves the state as it is, prints the message of the full table on
  \<open>stderr\<close> and returns \<open>INTERNSTATUS + 1 = -127\<close>, which is neither \<open>0\<close> nor the \<open>1\<close>
  and \<open>-1\<close> of the other failures nor the sentinel; the \<open>fork\<close> has been made, and the
  job table is unchanged.
\<close>

theorem start_cmd_job_table_full:
  assumes full: "\<forall>i<MAXJOBS. pid (job_at s i) \<noteq> 0"
    and ext: "\<not> is_builtin c"
    and parent: "os_fork os (clock s) = (p, e)" "p \<noteq> 0"
  shows "register_job p p options (Some c) (emit Fork (if p < 0 then s\<lparr>errno := e\<rparr> else s))
           = (None, emit Fork (if p < 0 then s\<lparr>errno := e\<rparr> else s)) \<and>
         start_cmd os c argv options notify s
           = Ret (INTERNSTATUS + 1)
               (print_err table_full_message (emit Fork (if p < 0 then s\<lparr>errno := e\<rparr> else s))) \<and>
         (\<forall>s'. start_cmd os c argv options notify s = Ret (INTERNSTATUS + 1) s' \<longrightarrow>
            job_list s' = job_list s \<and> stderr s' = stderr s @ table_full_message \<and>
            sys s' = sys s @ [Fork]) \<and>
         INTERNSTATUS + 1 = -127 \<and> INTERNSTATUS + 1 \<notin> {0, 1, -1, INTERNSTATUS}"
proof -
  let ?s = "emit Fork (if p < 0 then s\<lparr>errno := e\<rparr> else s)"
  have "\<forall>i<MAXJOBS. pid (job_at ?s i) \<noteq> 0"
    using full by simp
  then have reg: "register_job p p options (Some c) ?s = (None, ?s)"
    by (rule register_job_full)
  have run: "start_cmd os c argv options notify s
      = Ret (INTERNSTATUS + 1) (print_err table_full_message ?s)"
    using parent reg by (simp add: start_cmd_def internal_cmd_external [OF ext])
  show ?thesis
    using reg run by (auto simp: INTERNSTATUS_def print_err_def emit_def)
qed

theorem start_cmd_job_table_full_witness:
  "list_all (\<lambda>j. pid j \<noteq> 0) (job_list shell_full) \<and> length (job_list shell_full) = MAXJOBS \<and>
   \<not> is_builtin ''ls'' \<and>
   os_fork (os_wait 0) (clock shell_full) = (100, E0) \<and>
   start_cmd (os_wait 0) ''ls'' [''ls''] JFG True shell_full
     = Ret (-127) (shell_full\<lparr>stderr := table_full_message, sys := [Fork]\<rparr>) \<and>
   table_full_message
     = ''Unable to register a new job, terminate some jobs first (max: 32)'' @ NL"
proof -
  have full: "\<forall>i<MAXJOBS. pid (job_at shell_full i) \<noteq> 0"
    by (simp add: shell_full_def job_at_def MAXJOBS_def shell0_def)
  have ext: "\<not> is_builtin ''ls''"
    by code_simp
  have parent: "os_fork (os_wait 0) (clock shell_full) = (100, E0)" "(100::int) \<noteq> 0"
    by (simp_all add: os_wait_def clock_def shell_full_def shell0_def)
  have msg: "table_full_message
      = ''Unable to register a new job, terminate some jobs first (max: 32)'' @ NL"
    by code_simp
  have st: "print_err table_full_message (emit Fork shell_full)
      = shell_full\<lparr>stderr := table_full_message, sys := [Fork]\<rparr>"
    by (simp add: print_err_def emit_def shell_full_def shell0_def)
  have run: "start_cmd (os_wait 0) ''ls'' [''ls''] JFG True shell_full
      = Ret (INTERNSTATUS + 1) (print_err table_full_message (emit Fork shell_full))"
    using start_cmd_job_table_full [OF full ext parent, of JFG "[''ls'']" True]
    by (simp only: conj_imp_eq_imp_imp if_False) simp
  have val: "INTERNSTATUS + 1 = -127"
    by (simp add: INTERNSTATUS_def)
  show ?thesis
  proof (intro conjI)
    show "start_cmd (os_wait 0) ''ls'' [''ls''] JFG True shell_full
        = Ret (-127) (shell_full\<lparr>stderr := table_full_message, sys := [Fork]\<rparr>)"
      using run by (simp only: val st)
    show "list_all (\<lambda>j. pid j \<noteq> 0) (job_list shell_full)"
      by code_simp
    show "length (job_list shell_full) = MAXJOBS"
      by code_simp
  qed (rule ext parent(1) msg)+
qed

section \<open>The built-in \<open>echo\<close>\<close>

lemma echo_args_separated: "echo_args args = separated args"
  by (induction args rule: separated.induct) auto

lemma echo_alone: "hash_cmd c = ECHO \<Longrightarrow> internal_cmd os c [a0] s = Ret 0 s"
  by (simp add: internal_cmd_def ECHO_not_EXIT)

lemma echo_status_token:
  "hash_cmd c = ECHO \<Longrightarrow>
     internal_cmd os c (a0 # ''$?'' # rest) s
       = Ret 0 (print_out (show_int (laststatus s) @ '' '' @ separated rest @ NL) s)"
  using hash_status_token
  by (simp add: internal_cmd_def ECHO_not_EXIT print_out_print_out echo_args_separated)

lemma echo_as_specified:
  assumes "a = ''$?'' \<or> hash_cmd a \<noteq> ECHO_STATUS"
  shows "internal_cmd os ''echo'' (a0 # a # rest) s
           = Ret 0 (print_out (echo_spec (laststatus s) (a # rest)) s)"
proof (cases "a = ''$?''")
  case True
  then show ?thesis
    using echo_status_token [OF hash_echo, of os a0 rest s]
    by (simp add: echo_spec_def)
next
  case False
  then have "hash_cmd a \<noteq> ECHO_STATUS"
    using assms by simp
  then show ?thesis
    using echo_plain [OF hash_echo, of a os a0 rest s] False
    by (simp add: echo_spec_def echo_args_separated)
qed

text \<open>
  C8, as the claim states it, fails: \<open>echo\<close> without an argument prints nothing, not
  even the newline, and leaves the state as it is.
\<close>

theorem echo_no_argument_counterexample:
  "internal_cmd (os_wait 0) ''echo'' [''echo''] shell0
     \<noteq> Ret 0 (print_out (echo_spec (laststatus shell0) []) shell0) \<and>
   internal_cmd (os_wait 0) ''echo'' [''echo''] shell0 = Ret 0 shell0"
  by code_simp

text \<open>
  C8, amended: \<open>echo\<close> without an argument prints nothing and returns \<open>0\<close>.  With a
  first argument that is the token \<open>$?\<close>, or that the comparison of hashes does not
  take for it, \<open>echo\<close> prints what the specification says and returns \<open>0\<close>: the
  arguments separated by single spaces and one newline, with the last status and a
  space in place of a leading \<open>$?\<close>.  \<open>echo hello\<close> prints \<open>hello\<close> and a newline.
  Nothing is said of a first argument other than \<open>$?\<close> that has the hash of \<open>$?\<close>.
\<close>

theorem echo_contract:
  "internal_cmd os ''echo'' [a0] s = Ret 0 s \<and>
   (a = ''$?'' \<or> hash_cmd a \<noteq> ECHO_STATUS \<longrightarrow>
      internal_cmd os ''echo'' (a0 # a # rest) s
        = Ret 0 (print_out (echo_spec (laststatus s) (a # rest)) s)) \<and>
   internal_cmd os ''echo'' [''echo'', ''hello''] s = Ret 0 (print_out (''hello'' @ NL) s)"
proof (intro conjI impI)
  show "internal_cmd os ''echo'' [a0] s = Ret 0 s"
    by (rule echo_alone [OF hash_echo])
  show "internal_cmd os ''echo'' [''echo'', ''hello''] s = Ret 0 (print_out (''hello'' @ NL) s)"
    using echo_plain [OF hash_echo hash_hello, of os "''echo''" "[]" s] by simp
next
  assume "a = ''$?'' \<or> hash_cmd a \<noteq> ECHO_STATUS"
  then show "internal_cmd os ''echo'' (a0 # a # rest) s
          = Ret 0 (print_out (echo_spec (laststatus s) (a # rest)) s)"
    by (rule echo_as_specified)
qed

theorem echo_contract_witness:
  "hash_cmd ''a'' \<noteq> ECHO_STATUS \<and>
   internal_cmd (os_wait 0) ''echo'' [''echo''] shell0 = Ret 0 shell0 \<and>
   internal_cmd (os_wait 0) ''echo'' [''echo'', ''a'', ''b''] shell0
     = Ret 0 (shell0\<lparr>stdout := ''a b'' @ NL\<rparr>) \<and>
   internal_cmd (os_wait 0) ''echo'' [''echo'', ''$?'', ''b''] shell0
     = Ret 0 (shell0\<lparr>stdout := ''0 b'' @ NL\<rparr>) \<and>
   internal_cmd (os_wait 0) ''echo'' [''echo'', ''hello''] shell0
     = Ret 0 (shell0\<lparr>stdout := ''hello'' @ NL\<rparr>)"
proof -
  have a: "hash_cmd ''a'' \<noteq> ECHO_STATUS" by code_simp
  have l: "laststatus shell0 = 0" "stdout shell0 = []" by (simp_all add: shell0_def)
  have z: "show_int 0 = ''0''" by code_simp
  show ?thesis
    using a
      echo_contract [of "os_wait 0" "''echo''" shell0 "''a''" "[''b'']"]
      echo_contract [of "os_wait 0" "''echo''" shell0 "''$?''" "[''b'']"]
    by (simp add: echo_spec_def print_out_def l z)
qed

section \<open>The name stored with a job\<close>

lemma length_cmd_copy [simp]: "length (cmd_copy n j src buf) = length buf"
  by (induction n arbitrary: j buf) (simp_all add: Let_def)

lemma c_at_NUL_iff: "NUL \<notin> set src \<Longrightarrow> j \<le> length src \<Longrightarrow> c_at src j = NUL \<longleftrightarrow> j = length src"
  by (auto simp: c_at_def in_set_conv_nth)

lemma cmd_copy_nth:
  "NUL \<notin> set src \<Longrightarrow> j \<le> length src \<Longrightarrow> k < length buf \<Longrightarrow>
     cmd_copy n j src buf ! k =
       (if j \<le> k \<and> k < j + n \<and> k \<le> length src then c_at src k else buf ! k)"
proof (induction n arbitrary: j buf)
  case 0
  then show ?case by auto
next
  case (Suc n)
  show ?case
  proof (cases "j = length src")
    case True
    then have "c_at src j = NUL" by (simp add: c_at_def)
    then show ?thesis using True Suc.prems by (auto simp: Let_def nth_list_update)
  next
    case False
    then have lt: "j < length src" using Suc.prems by simp
    then have "c_at src j \<noteq> NUL" using Suc.prems by (simp add: c_at_NUL_iff)
    then have "cmd_copy (Suc n) j src buf = cmd_copy n (Suc j) src (buf[j := c_at src j])"
      by (simp add: Let_def)
    then have step: "cmd_copy (Suc n) j src buf ! k
        = (if Suc j \<le> k \<and> k < Suc j + n \<and> k \<le> length src then c_at src k
           else buf[j := c_at src j] ! k)"
      using Suc.IH [of "Suc j" "buf[j := c_at src j]"] Suc.prems lt by simp
    show ?thesis
    proof (cases "k = j")
      case True
      then show ?thesis using step Suc.prems lt by simp
    next
      case False
      then have "Suc j \<le> k \<longleftrightarrow> j \<le> k" by arith
      then show ?thesis using step False by simp
    qed
  qed
qed

text \<open>
  What the copy loop stores in a buffer of \<open>CMDBUFSZ\<close> bytes: the first \<open>CMDBUFSZ\<close>
  bytes of a name that has at least that many, and a shorter name with its terminator,
  the rest of the buffer being left as it was.
\<close>

lemma cmd_copy_long:
  assumes "NUL \<notin> set src" and "CMDBUFSZ \<le> length src" and "length buf = CMDBUFSZ"
  shows "cmd_copy CMDBUFSZ 0 src buf = take CMDBUFSZ src"
proof (rule nth_equalityI)
  show "length (cmd_copy CMDBUFSZ 0 src buf) = length (take CMDBUFSZ src)"
    using assms by simp
next
  fix k assume "k < length (cmd_copy CMDBUFSZ 0 src buf)"
  then have "k < CMDBUFSZ" using assms by simp
  then show "cmd_copy CMDBUFSZ 0 src buf ! k = take CMDBUFSZ src ! k"
    using assms by (simp add: cmd_copy_nth c_at_def)
qed

lemma cmd_copy_short:
  assumes "NUL \<notin> set src" and "length src < CMDBUFSZ" and "length buf = CMDBUFSZ"
  shows "cmd_copy CMDBUFSZ 0 src buf = src @ NUL # drop (Suc (length src)) buf"
proof (rule nth_equalityI)
  show "length (cmd_copy CMDBUFSZ 0 src buf) = length (src @ NUL # drop (Suc (length src)) buf)"
    using assms by simp
next
  fix k assume "k < length (cmd_copy CMDBUFSZ 0 src buf)"
  then have "k < CMDBUFSZ" using assms by simp
  then show "cmd_copy CMDBUFSZ 0 src buf ! k = (src @ NUL # drop (Suc (length src)) buf) ! k"
  proof (cases "k \<le> length src")
    case True
    then show ?thesis
      using assms \<open>k < CMDBUFSZ\<close> by (auto simp: cmd_copy_nth c_at_def nth_append)
  next
    case False
    then have "(src @ NUL # drop (Suc (length src)) buf) ! k
        = drop (Suc (length src)) buf ! (k - Suc (length src))"
      by (simp add: nth_append nth_Cons')
    also have "\<dots> = buf ! (Suc (length src) + (k - Suc (length src)))"
      using assms by (intro nth_drop) simp
    also have "\<dots> = buf ! k"
      using False by simp
    finally have "(src @ NUL # drop (Suc (length src)) buf) ! k = buf ! k" .
    then show ?thesis
      using False assms \<open>k < CMDBUFSZ\<close> by (simp add: cmd_copy_nth)
  qed
qed

text \<open>
  C9.  A command name of 16 bytes, \<open>gnome-calculator\<close>: \<open>register_job\<close> copies all 16
  bytes into the buffer of \<open>CMDBUFSZ = 16\<close> bytes and no NUL is stored in it.
\<close>

theorem register_job_sixteen_bytes_unterminated:
  "fst (register_job 100 100 JFG (Some ''gnome-calculator'') shell0) = Some 0 \<and>
   length ''gnome-calculator'' = CMDBUFSZ \<and>
   cmd (job_at (snd (register_job 100 100 JFG (Some ''gnome-calculator'') shell0)) 0)
     = ''gnome-calculator'' \<and>
   NUL \<notin> set (cmd (job_at (snd (register_job 100 100 JFG (Some ''gnome-calculator'') shell0)) 0))"
  by code_simp

section \<open>Dispatch of the built-ins by hash\<close>

text \<open>
  C10.  \<open>internal_cmd\<close> reads the command name only through \<open>hash_cmd\<close>: two names with
  the same hash give the same result on every argument vector, state and environment.
  A name whose hash is that of \<open>exit\<close> ends the shell with \<open>exit (0)\<close>, in
  \<open>internal_cmd\<close> and so in \<open>start_cmd\<close>, where no \<open>fork\<close> is made.
\<close>

theorem builtin_dispatch_by_hash:
  "(hash_cmd c1 = hash_cmd c2 \<longrightarrow> internal_cmd os c1 argv s = internal_cmd os c2 argv s) \<and>
   (hash_cmd c = EXIT \<longrightarrow>
      internal_cmd os c argv s = Halt 0 s \<and> start_cmd os c argv options notify s = Halt 0 s)"
  by (simp add: internal_cmd_def start_cmd_def)

theorem builtin_dispatch_by_hash_witness:
  "hash_cmd ''cd'' = hash_cmd ''jc'' \<and> ''cd'' \<noteq> ''jc'' \<and>
   internal_cmd (os_wait 0) ''cd'' [''jc'', ''/tmp''] shell0
     = internal_cmd (os_wait 0) ''jc'' [''jc'', ''/tmp''] shell0 \<and>
   hash_cmd ''lwit'' = EXIT \<and>
   internal_cmd (os_wait 0) ''lwit'' [''lwit''] shell0 = Halt 0 shell0 \<and>
   start_cmd (os_wait 0) ''lwit'' [''lwit''] JFG True shell0 = Halt 0 shell0"
proof -
  have h1: "hash_cmd ''cd'' = hash_cmd ''jc''" by code_simp
  have h2: "hash_cmd ''lwit'' = EXIT" by code_simp
  show ?thesis
    using h1 h2
      builtin_dispatch_by_hash [of "''cd''" "''jc''" "os_wait 0" "[''jc'', ''/tmp'']" shell0
        "''lwit''" JFG True]
      builtin_dispatch_by_hash [of "''cd''" "''jc''" "os_wait 0" "[''lwit'']" shell0
        "''lwit''" JFG True]
    by simp
qed

end
